theory Spec2Isabelle
  imports Complex_Main
begin

section \<open>Data model of \<^verbatim>\<open>src/axisem_db.py\<close>\<close>

text \<open>
  The module is Python 2 (\<^verbatim>\<open>xrange\<close>, no \<^verbatim>\<open>division\<close> import). Scalars read from the
  database are double precision floats; they are modelled as \<^typ>\<open>real\<close>, so every
  statement below about a numerical value is an identity of real numbers and says nothing
  about rounding, overflow, or the infinities and NaNs of a floating point division by
  zero. Exceptions are values of \<open>error\<close>; a Python function that
  falls off its end returns \<^verbatim>\<open>None\<close>, which is the \<open>None\<close> of the result type
  \<open>error + real list option\<close>.
\<close>

datatype error =
    ValueError string
  | NotImplementedError
  | KeyError string
  | AttributeError string

text \<open>A symmetric tensor in Voigt notation: six components, indexed 0..5 in the source.\<close>

datatype voigt = Voigt (m0: real) (m1: real) (m2: real) (m3: real) (m4: real) (m5: real)

record source =
  src_x :: real
  src_y :: real
  src_z :: real
  src_tensor_voigt :: voigt
  src_longitude :: real
  src_colatitude :: real

record receiver =
  rcv_longitude :: real
  rcv_colatitude :: real

text \<open>
  The netCDF group \<^verbatim>\<open>Mesh\<close> of the PX file (\<^verbatim>\<open>self.__files["px"].groups["Mesh"]\<close>). The
  file reader is not part of the sources; its variables are taken as total arrays, that
  is, every id the program reads is an id of the file.
\<close>

record mesh_group =
  fem_mesh :: "nat \<Rightarrow> nat list"
  eltype :: "nat \<Rightarrow> int"
  mesh_S :: "nat \<Rightarrow> real"
  mesh_Z :: "nat \<Rightarrow> real"
  sem_mesh :: "nat \<Rightarrow> nat \<Rightarrow> nat \<Rightarrow> int"
  axis :: "nat \<Rightarrow> int"

text \<open>
  The object \<^verbatim>\<open>self._meshes["px"]\<close> of class \<^verbatim>\<open>mesh.Mesh\<close> (not part of the sources): the
  attributes that \<^verbatim>\<open>get_seismogram\<close> reads. \<open>kdtree\<close> is the method \<^verbatim>\<open>kdtree.query\<close>,
  returning distances and indices; \<open>snapshots\<close> is the dictionary
  \<^verbatim>\<open>mesh.f.groups["Snapshots"].variables\<close>, a variable being indexed by time sample and
  node id and holding \<open>ndumps\<close> time samples; \<open>chunks\<close> is the pair of chunk sizes
  of which the program reads the second.
\<close>

record Mesh =
  kdtree :: "real list \<Rightarrow> nat \<Rightarrow> real list \<times> nat list"
  dump_type :: string
  G2 :: "real list list"
  G1T :: "real list list"
  G2T :: "real list list"
  glj_points :: "real list"
  gll_points :: "real list"
  ndumps :: nat
  npol :: nat
  chunks :: "int \<times> int"
  snapshots :: "string \<rightharpoonup> (nat \<Rightarrow> int \<Rightarrow> real)"
  excitation_type :: string
  amplitude :: real

record AxiSEMDB =
  files_px_Mesh :: mesh_group
  meshes_px :: Mesh

text \<open>
  One time sample of the strain field on an element: the component index (0..5) gives the
  two-dimensional nodal field \<^verbatim>\<open>strain[t, :, :, i]\<close>.
\<close>

type_synonym strain_sample = "nat \<Rightarrow> real list list"

text \<open>
  A strain kernel works on one time sample of the displacement buffer
  (\<^verbatim>\<open>utemp[t]\<close>, indexed \<^verbatim>\<open>[jpol][ipol][component]\<close>) and takes the remaining arguments of
  the source's call.
\<close>

type_synonym strain_kernel =
  "real list list list \<Rightarrow> real list list \<Rightarrow> real list list \<Rightarrow> real list \<Rightarrow> real list
     \<Rightarrow> nat \<Rightarrow> nat \<Rightarrow> (real \<times> real) list \<Rightarrow> int \<Rightarrow> bool \<Rightarrow> strain_sample"

text \<open>
  The imported modules \<^verbatim>\<open>rotations\<close>, \<^verbatim>\<open>finite_elem_mapping\<close>, \<^verbatim>\<open>sem_derivatives\<close> and
  \<^verbatim>\<open>spectral_basis\<close> are not part of the sources: their functions are parameters of the
  model. The two batch functions (\<^verbatim>\<open>strain_*_td\<close>, \<^verbatim>\<open>lagrange_interpol_2D_td\<close>) enter
  through their action on one time sample.
\<close>

record modules =
  rotate_frame_rd :: "real \<Rightarrow> real \<Rightarrow> real \<Rightarrow> real \<Rightarrow> real \<Rightarrow> real \<times> real \<times> real"
  inside_element :: "real \<Rightarrow> real \<Rightarrow> (real \<times> real) list \<Rightarrow> int \<Rightarrow> real \<Rightarrow> bool \<times> real \<times> real"
  strain_monopole :: strain_kernel
  strain_dipole :: strain_kernel
  strain_quadpole :: strain_kernel
  lagrange_interpol_2D :: "real list \<Rightarrow> real list \<Rightarrow> real list list \<Rightarrow> real \<Rightarrow> real \<Rightarrow> real"
  rotate_symm_tensor_voigt_xyz_src_to_xyz_earth_1d :: "voigt \<Rightarrow> real \<Rightarrow> real \<Rightarrow> voigt"
  rotate_symm_tensor_voigt_xyz_earth_to_xyz_src_1d :: "voigt \<Rightarrow> real \<Rightarrow> real \<Rightarrow> voigt"
  rotate_symm_tensor_voigt_xyz_to_src_1d :: "voigt \<Rightarrow> real \<Rightarrow> voigt"
  azim_factor_bw :: "real \<Rightarrow> real list \<Rightarrow> nat \<Rightarrow> nat \<Rightarrow> real"

section \<open>Element search (lines 48--72)\<close>

text \<open>
  The \<^verbatim>\<open>for idx in nextpoints[1]: ... else: raise ValueError("Element not found")\<close>
  loop. On \<^verbatim>\<open>break\<close> the variables \<^verbatim>\<open>id_elem\<close>, \<^verbatim>\<open>corner_points\<close>, \<^verbatim>\<open>eltype\<close>, \<^verbatim>\<open>xi\<close>,
  \<^verbatim>\<open>eta\<close> keep the values of the accepted candidate; these are the result.
\<close>

definition corner_points_of :: "mesh_group \<Rightarrow> nat \<Rightarrow> (real \<times> real) list" where
  "corner_points_of mesh idx =
     map (\<lambda>i. (mesh_S mesh i, mesh_Z mesh i)) (take 4 (fem_mesh mesh idx))"

definition element_test :: "modules \<Rightarrow> mesh_group \<Rightarrow> real \<Rightarrow> real \<Rightarrow> nat \<Rightarrow> bool \<times> real \<times> real" where
  "element_test md mesh rotmesh_s rotmesh_z idx =
     inside_element md rotmesh_s rotmesh_z (corner_points_of mesh idx) (eltype mesh idx)
       (1 / 1000)"

fun find_element ::
  "modules \<Rightarrow> mesh_group \<Rightarrow> real \<Rightarrow> real \<Rightarrow> nat list
     \<Rightarrow> error + (nat \<times> (real \<times> real) list \<times> int \<times> real \<times> real)" where
  "find_element md mesh rotmesh_s rotmesh_z [] = Inl (ValueError ''Element not found'')"
| "find_element md mesh rotmesh_s rotmesh_z (idx # rest) =
     (case element_test md mesh rotmesh_s rotmesh_z idx of
        (isin, xi, eta) \<Rightarrow>
          if isin
          then Inr (idx, corner_points_of mesh idx, eltype mesh idx, xi, eta)
          else find_element md mesh rotmesh_s rotmesh_z rest)"

section \<open>Loading the displacement buffer (lines 97--115)\<close>

text \<open>
  \<^verbatim>\<open>utemp\<close> has shape \<^verbatim>\<open>(ndumps, npol + 1, npol + 1, 3)\<close>; it is a list of time samples, each
  indexed \<^verbatim>\<open>[jpol][ipol][component]\<close>.
\<close>

type_synonym displ_buffer = "real list list list list"

definition zeros :: "nat \<Rightarrow> nat \<Rightarrow> displ_buffer" where
  "zeros nd np = replicate nd (replicate (np + 1) (replicate (np + 1) (replicate 3 0)))"

text \<open>
  Lines 105--107: \<^verbatim>\<open>start_chunk\<close> is assigned twice. The ids are numpy integers (the
  array read from the file is subscripted with two indices), on which Python 2's \<^verbatim>\<open>/\<close> is
  floor division; numpy answers a zero divisor with 0 and a warning, not with an
  exception, which is what \<open>div\<close> does here too.
\<close>

definition start_chunk_of :: "(nat \<Rightarrow> nat \<Rightarrow> int) \<Rightarrow> int \<times> int \<Rightarrow> nat \<Rightarrow> nat \<Rightarrow> int" where
  "start_chunk_of gll_point_ids chnks ipol jpol =
     (let start_chunk = gll_point_ids ipol jpol div snd chnks * snd chnks;
          start_chunk = gll_point_ids ipol jpol
      in start_chunk)"

text \<open>The assignment \<^verbatim>\<open>utemp[:, jpol, ipol, i] = column\<close>.\<close>

definition assign_column ::
  "displ_buffer \<Rightarrow> nat \<Rightarrow> nat \<Rightarrow> nat \<Rightarrow> real list \<Rightarrow> displ_buffer" where
  "assign_column utemp jpol ipol i col =
     map2 (\<lambda>plane v. plane[jpol := (plane ! jpol)[ipol := (plane ! jpol ! ipol)[i := v]]])
       utemp col"

text \<open>The read \<^verbatim>\<open>mesh_dict[var][:, start_chunk]\<close>: all time samples of one node.\<close>

definition read_column :: "(nat \<Rightarrow> int \<Rightarrow> real) \<Rightarrow> nat \<Rightarrow> int \<Rightarrow> real list" where
  "read_column v nd start_chunk = map (\<lambda>t. v t start_chunk) [0..<nd]"

definition disp_vars :: "(nat \<times> string) list" where
  "disp_vars = List.enumerate 0 [''disp_s'', ''disp_p'', ''disp_z'']"

text \<open>The innermost loop, \<^verbatim>\<open>continue\<close> being the step to the next variable.\<close>

fun load_vars ::
  "(string \<rightharpoonup> (nat \<Rightarrow> int \<Rightarrow> real)) \<Rightarrow> nat \<Rightarrow> int \<Rightarrow> nat \<Rightarrow> nat \<Rightarrow> (nat \<times> string) list
     \<Rightarrow> displ_buffer \<Rightarrow> displ_buffer" where
  "load_vars mesh_dict nd start_chunk ipol jpol [] utemp = utemp"
| "load_vars mesh_dict nd start_chunk ipol jpol ((i, var) # rest) utemp =
     (case mesh_dict var of
        None \<Rightarrow> load_vars mesh_dict nd start_chunk ipol jpol rest utemp
      | Some v \<Rightarrow>
          load_vars mesh_dict nd start_chunk ipol jpol rest
            (assign_column utemp jpol ipol i (read_column v nd start_chunk)))"

definition load_displacement :: "Mesh \<Rightarrow> (nat \<Rightarrow> nat \<Rightarrow> int) \<Rightarrow> displ_buffer" where
  "load_displacement mesh gll_point_ids =
     fold (\<lambda>ipol utemp.
        fold (\<lambda>jpol utemp.
            load_vars (snapshots mesh) (ndumps mesh)
              (start_chunk_of gll_point_ids (chunks mesh) ipol jpol) ipol jpol disp_vars utemp)
          [0..<npol mesh + 1] utemp)
       [0..<npol mesh + 1] (zeros (ndumps mesh) (npol mesh))"

section \<open>Strain, interpolation, rotation and contraction (lines 117--158)\<close>

definition strain_fct_map :: "modules \<Rightarrow> string \<rightharpoonup> strain_kernel" where
  "strain_fct_map md =
     [''monopole'' \<mapsto> strain_monopole md,
      ''dipole'' \<mapsto> strain_dipole md,
      ''quadpole'' \<mapsto> strain_quadpole md]"

text \<open>
  Modelled from the spec: the functions \<^verbatim>\<open>sem_derivatives.strain_*_td\<close> are missing from
  the sources. The strain field has shape (time, local-j, local-i, 6), one sample of it
  for each time sample of the displacement buffer.
\<close>

definition strain_td ::
  "strain_kernel \<Rightarrow> displ_buffer \<Rightarrow> real list list \<Rightarrow> real list list \<Rightarrow> real list \<Rightarrow> real list
     \<Rightarrow> nat \<Rightarrow> nat \<Rightarrow> (real \<times> real) list \<Rightarrow> int \<Rightarrow> bool \<Rightarrow> strain_sample list" where
  "strain_td kern utemp G GT col_points_xi col_points_eta np nd corner_points et ax =
     map (\<lambda>u. kern u G GT col_points_xi col_points_eta np nd corner_points et ax) utemp"

text \<open>
  Modelled from the spec: \<^verbatim>\<open>spectral_basis.lagrange_interpol_2D_td\<close> is missing from the
  sources. Given a batch of grids sharing the same abscissae, one per time sample, it
  returns the interpolated value of each.
\<close>

definition lagrange_interpol_2D_td ::
  "modules \<Rightarrow> real list \<Rightarrow> real list \<Rightarrow> real list list list \<Rightarrow> real \<Rightarrow> real \<Rightarrow> real list" where
  "lagrange_interpol_2D_td md col_points_xi col_points_eta grids xi eta =
     map (\<lambda>f. lagrange_interpol_2D md col_points_xi col_points_eta f xi eta) grids"

text \<open>The slice \<^verbatim>\<open>strain[:, :, :, i]\<close>.\<close>

definition strain_component :: "strain_sample list \<Rightarrow> nat \<Rightarrow> real list list list" where
  "strain_component strain i = map (\<lambda>s. s i) strain"

text \<open>
  \<^verbatim>\<open>final_strain\<close> has shape \<^verbatim>\<open>(strain.shape[0], 6)\<close>: a list of rows. \<^verbatim>\<open>np.empty\<close> leaves
  the entries unspecified and the loop overwrites every one of them; the model starts
  from zeros.
\<close>

definition set_column :: "real list list \<Rightarrow> nat \<Rightarrow> real list \<Rightarrow> real list list" where
  "set_column a i col = map2 (\<lambda>row v. row[i := v]) a col"

definition scale_column :: "real list list \<Rightarrow> nat \<Rightarrow> real \<Rightarrow> real list list" where
  "scale_column a i c = map (\<lambda>row. row[i := row ! i * c]) a"

definition column :: "real list list \<Rightarrow> nat \<Rightarrow> real list" where
  "column a i = map (\<lambda>row. row ! i) a"

definition interpolate_strain ::
  "modules \<Rightarrow> real list \<Rightarrow> real list \<Rightarrow> strain_sample list \<Rightarrow> real \<Rightarrow> real \<Rightarrow> real list list" where
  "interpolate_strain md col_points_xi col_points_eta strain xi eta =
     (let final_strain = replicate (length strain) (replicate 6 0);
          final_strain =
            fold (\<lambda>i fs.
                set_column fs i
                  (lagrange_interpol_2D_td md col_points_xi col_points_eta
                     (strain_component strain i) xi eta))
              [0..<6] final_strain;
          final_strain = scale_column final_strain 3 (- 1);
          final_strain = scale_column final_strain 5 (- 1)
      in final_strain)"

definition deg2rad :: "real \<Rightarrow> real" where
  "deg2rad x = x * (pi / 180)"

definition voigt_div :: "voigt \<Rightarrow> real \<Rightarrow> voigt" where
  "voigt_div m a = Voigt (m0 m / a) (m1 m / a) (m2 m / a) (m3 m / a) (m4 m / a) (m5 m / a)"

text \<open>Lines 134--142: \<^verbatim>\<open>mij\<close> is assigned three times and then divided in place.\<close>

definition rotate_moment :: "modules \<Rightarrow> source \<Rightarrow> receiver \<Rightarrow> real \<Rightarrow> real \<Rightarrow> voigt" where
  "rotate_moment md source receiver rotmesh_phi ampl =
     (let mij = rotate_symm_tensor_voigt_xyz_src_to_xyz_earth_1d md (src_tensor_voigt source)
                  (deg2rad (src_longitude source)) (deg2rad (src_colatitude source));
          mij = rotate_symm_tensor_voigt_xyz_earth_to_xyz_src_1d md mij
                  (deg2rad (rcv_longitude receiver)) (deg2rad (rcv_colatitude receiver));
          mij = rotate_symm_tensor_voigt_xyz_to_src_1d md mij rotmesh_phi;
          mij = voigt_div mij ampl
      in mij)"

text \<open>The in-place addition \<^verbatim>\<open>final += xs\<close> of arrays of one shape.\<close>

definition add_to :: "real list \<Rightarrow> real list \<Rightarrow> real list" where
  "add_to final xs = map2 (+) final xs"

text \<open>Lines 149--156.\<close>

definition contract :: "real list list \<Rightarrow> voigt \<Rightarrow> real \<Rightarrow> real \<Rightarrow> real list" where
  "contract final_strain mij fac_1 fac_2 =
     (let final = replicate (length final_strain) 0;
          final = add_to final (map (\<lambda>s. s * m0 mij * 1 * fac_1) (column final_strain 0));
          final = add_to final (map (\<lambda>s. s * m1 mij * 1 * fac_1) (column final_strain 1));
          final = add_to final (map (\<lambda>s. s * m2 mij * 1 * fac_1) (column final_strain 2));
          final = add_to final (map (\<lambda>s. s * m3 mij * 2 * fac_2) (column final_strain 3));
          final = add_to final (map (\<lambda>s. s * m4 mij * 2 * fac_1) (column final_strain 4));
          final = add_to final (map (\<lambda>s. s * m5 mij * 2 * fac_2) (column final_strain 5));
          final = map (\<lambda>x. x * (- 1)) final
      in final)"

section \<open>\<^verbatim>\<open>AxiSEMDB.get_seismogram\<close> (lines 43--158)\<close>

text \<open>\<^verbatim>\<open>str.strip()\<close> removes leading and trailing ASCII whitespace.\<close>

definition is_space :: "char \<Rightarrow> bool" where
  "is_space c =
     (c = CHR '' '' \<or> c = CHR 0x09 \<or> c = CHR 0x0A \<or> c = CHR 0x0B \<or> c = CHR 0x0C \<or> c = CHR 0x0D)"

definition strip :: "string \<Rightarrow> string" where
  "strip s = rev (dropWhile is_space (rev (dropWhile is_space s)))"

text \<open>Lines 83--92: the choice of matrices and collocation points.\<close>

definition select_basis ::
  "Mesh \<Rightarrow> bool \<Rightarrow> real list list \<times> real list list \<times> real list \<times> real list" where
  "select_basis mesh ax =
     (if ax then (G2 mesh, G1T mesh, glj_points mesh, gll_points mesh)
      else (G2 mesh, G2T mesh, gll_points mesh, gll_points mesh))"

text \<open>Lines 44--46: the source's coordinates in the frame of the mesh, \<open>(s, phi, z)\<close>.\<close>

definition rotmesh :: "modules \<Rightarrow> source \<Rightarrow> receiver \<Rightarrow> real \<times> real \<times> real" where
  "rotmesh md source receiver =
     rotate_frame_rd md (src_x source * 1000) (src_y source * 1000) (src_z source * 1000)
       (rcv_longitude receiver) (rcv_colatitude receiver)"

text \<open>Lines 48--49 and 52: the candidate elements \<^verbatim>\<open>nextpoints[1]\<close>.\<close>

definition candidates :: "modules \<Rightarrow> AxiSEMDB \<Rightarrow> source \<Rightarrow> receiver \<Rightarrow> nat list" where
  "candidates md self source receiver =
     (case rotmesh md source receiver of
        (rotmesh_s, rotmesh_phi, rotmesh_z) \<Rightarrow>
          (let nextpoints = kdtree (meshes_px self) [rotmesh_s, rotmesh_z] 6
           in snd nextpoints))"

text \<open>Lines 51--72: the element search at the rotated point.\<close>

definition locate ::
  "modules \<Rightarrow> AxiSEMDB \<Rightarrow> source \<Rightarrow> receiver
     \<Rightarrow> error + (nat \<times> (real \<times> real) list \<times> int \<times> real \<times> real)" where
  "locate md self source receiver =
     (case rotmesh md source receiver of
        (rotmesh_s, rotmesh_phi, rotmesh_z) \<Rightarrow>
          find_element md (files_px_Mesh self) rotmesh_s rotmesh_z
            (candidates md self source receiver))"

text \<open>Lines 79--158: the body of \<^verbatim>\<open>if component == "N"\<close>.\<close>

definition seismogram_N ::
  "modules \<Rightarrow> Mesh \<Rightarrow> source \<Rightarrow> receiver \<Rightarrow> real \<Rightarrow> (nat \<Rightarrow> nat \<Rightarrow> int) \<Rightarrow> bool
     \<Rightarrow> (real \<times> real) list \<Rightarrow> int \<Rightarrow> real \<Rightarrow> real \<Rightarrow> error + real list" where
  "seismogram_N md mesh source receiver rotmesh_phi gll_point_ids ax corner_points et xi eta =
     (if strip (dump_type mesh) \<noteq> ''displ_only'' then Inl NotImplementedError
      else
        case select_basis mesh ax of
          (G, GT, col_points_xi, col_points_eta) \<Rightarrow>
            (let utemp = load_displacement mesh gll_point_ids
             in case strain_fct_map md (excitation_type mesh) of
                  None \<Rightarrow> Inl (KeyError (excitation_type mesh))
                | Some kern \<Rightarrow>
                    (let strain = strain_td kern utemp G GT col_points_xi col_points_eta
                                    (npol mesh) (ndumps mesh) corner_points et ax;
                         final_strain =
                           interpolate_strain md col_points_xi col_points_eta strain xi eta;
                         mij = rotate_moment md source receiver rotmesh_phi (amplitude mesh);
                         fac_1 = azim_factor_bw md rotmesh_phi [0, 1, 0] 2 1;
                         fac_2 = azim_factor_bw md rotmesh_phi [0, 1, 0] 2 2
                     in Inr (contract final_strain mij fac_1 fac_2))))"

definition get_seismogram ::
  "modules \<Rightarrow> AxiSEMDB \<Rightarrow> source \<Rightarrow> receiver \<Rightarrow> string \<Rightarrow> error + real list option" where
  "get_seismogram md self source receiver component =
     (case rotmesh md source receiver of
        (rotmesh_s, rotmesh_phi, rotmesh_z) \<Rightarrow>
          (case locate md self source receiver of
             Inl e \<Rightarrow> Inl e
           | Inr (id_elem, corner_points, et, xi, eta) \<Rightarrow>
               (let gll_point_ids = sem_mesh (files_px_Mesh self) id_elem;
                    ax = (axis (files_px_Mesh self) id_elem \<noteq> 0)
                in if component = ''N''
                   then (case seismogram_N md (meshes_px self) source receiver rotmesh_phi
                                gll_point_ids ax corner_points et xi eta of
                           Inl e \<Rightarrow> Inl e
                         | Inr final \<Rightarrow> Inr (Some final))
                   else Inr None)))"

text \<open>
  Lines 53--67 at the rotated point: the triple \<open>(isin, xi, eta)\<close> that the search
  computes for the candidate \<open>idx\<close>.
\<close>

definition inside_result ::
  "modules \<Rightarrow> AxiSEMDB \<Rightarrow> source \<Rightarrow> receiver \<Rightarrow> nat \<Rightarrow> bool \<times> real \<times> real" where
  "inside_result md self source receiver idx =
     (case rotmesh md source receiver of
        (rotmesh_s, rotmesh_phi, rotmesh_z) \<Rightarrow>
          element_test md (files_px_Mesh self) rotmesh_s rotmesh_z idx)"

section \<open>The program without the first assignment of \<^verbatim>\<open>start_chunk\<close>\<close>

text \<open>
  \<^verbatim>\<open>get_seismogram\<close> with lines 105--106 deleted: the loop body begins with
  \<^verbatim>\<open>start_chunk = gll_point_ids[ipol, jpol]\<close>. Everything else is as above.
\<close>

definition load_displacement_raw :: "Mesh \<Rightarrow> (nat \<Rightarrow> nat \<Rightarrow> int) \<Rightarrow> displ_buffer" where
  "load_displacement_raw mesh gll_point_ids =
     fold (\<lambda>ipol utemp.
        fold (\<lambda>jpol utemp.
            (let start_chunk = gll_point_ids ipol jpol
             in load_vars (snapshots mesh) (ndumps mesh) start_chunk ipol jpol disp_vars utemp))
          [0..<npol mesh + 1] utemp)
       [0..<npol mesh + 1] (zeros (ndumps mesh) (npol mesh))"

definition seismogram_N_raw ::
  "modules \<Rightarrow> Mesh \<Rightarrow> source \<Rightarrow> receiver \<Rightarrow> real \<Rightarrow> (nat \<Rightarrow> nat \<Rightarrow> int) \<Rightarrow> bool
     \<Rightarrow> (real \<times> real) list \<Rightarrow> int \<Rightarrow> real \<Rightarrow> real \<Rightarrow> error + real list" where
  "seismogram_N_raw md mesh source receiver rotmesh_phi gll_point_ids ax corner_points et xi eta =
     (if strip (dump_type mesh) \<noteq> ''displ_only'' then Inl NotImplementedError
      else
        case select_basis mesh ax of
          (G, GT, col_points_xi, col_points_eta) \<Rightarrow>
            (let utemp = load_displacement_raw mesh gll_point_ids
             in case strain_fct_map md (excitation_type mesh) of
                  None \<Rightarrow> Inl (KeyError (excitation_type mesh))
                | Some kern \<Rightarrow>
                    (let strain = strain_td kern utemp G GT col_points_xi col_points_eta
                                    (npol mesh) (ndumps mesh) corner_points et ax;
                         final_strain =
                           interpolate_strain md col_points_xi col_points_eta strain xi eta;
                         mij = rotate_moment md source receiver rotmesh_phi (amplitude mesh);
                         fac_1 = azim_factor_bw md rotmesh_phi [0, 1, 0] 2 1;
                         fac_2 = azim_factor_bw md rotmesh_phi [0, 1, 0] 2 2
                     in Inr (contract final_strain mij fac_1 fac_2))))"

definition get_seismogram_raw ::
  "modules \<Rightarrow> AxiSEMDB \<Rightarrow> source \<Rightarrow> receiver \<Rightarrow> string \<Rightarrow> error + real list option" where
  "get_seismogram_raw md self source receiver component =
     (case rotmesh md source receiver of
        (rotmesh_s, rotmesh_phi, rotmesh_z) \<Rightarrow>
          (case locate md self source receiver of
             Inl e \<Rightarrow> Inl e
           | Inr (id_elem, corner_points, et, xi, eta) \<Rightarrow>
               (let gll_point_ids = sem_mesh (files_px_Mesh self) id_elem;
                    ax = (axis (files_px_Mesh self) id_elem \<noteq> 0)
                in if component = ''N''
                   then (case seismogram_N_raw md (meshes_px self) source receiver rotmesh_phi
                                gll_point_ids ax corner_points et xi eta of
                           Inl e \<Rightarrow> Inl e
                         | Inr final \<Rightarrow> Inr (Some final))
                   else Inr None)))"

section \<open>The \<^verbatim>\<open>info\<close> property of \<^verbatim>\<open>src/instaseis/base_instaseis_db.py\<close> (lines 131--138)\<close>

text \<open>
  An instance of a subclass of \<^verbatim>\<open>BaseInstaseisDB\<close> is its attribute dictionary.
  \<open>get_info_calls\<close> is no attribute of the program: it counts the calls of the abstract
  method \<^verbatim>\<open>get_info\<close>, which is a parameter \<open>g\<close> reading the instance.
\<close>

record 'v db_object =
  attrs :: "string \<rightharpoonup> 'v"
  get_info_calls :: nat

definition hasattr :: "'v db_object \<Rightarrow> string \<Rightarrow> bool" where
  "hasattr self name = (attrs self name \<noteq> None)"

definition getattr :: "'v db_object \<Rightarrow> string \<Rightarrow> error + 'v" where
  "getattr self name =
     (case attrs self name of None \<Rightarrow> Inl (AttributeError name) | Some v \<Rightarrow> Inr v)"

definition setattr :: "'v db_object \<Rightarrow> string \<Rightarrow> 'v \<Rightarrow> 'v db_object" where
  "setattr self name v = self\<lparr>attrs := (attrs self)(name \<mapsto> v)\<rparr>"

text \<open>
  Python's private name mangling: inside the body of class \<open>cls\<close> an identifier that
  begins with two underscores and does not end with two underscores is replaced by
  \<^verbatim>\<open>_cls\<close> (leading underscores of the class name removed) followed by the identifier. It
  applies to the attribute references \<^verbatim>\<open>self.__cached_info\<close> of lines 137 and 138, and not
  to the string literal of line 136.
\<close>

definition mangle :: "string \<Rightarrow> string \<Rightarrow> string" where
  "mangle cls name =
     (let stripped = dropWhile (\<lambda>c. c = CHR ''_'') cls
      in if take 2 name = ''__'' \<and> take 2 (rev name) \<noteq> ''__'' \<and> stripped \<noteq> []
         then CHR ''_'' # stripped @ name
         else name)"

definition call_get_info :: "('v db_object \<Rightarrow> 'v) \<Rightarrow> 'v db_object \<Rightarrow> 'v \<times> 'v db_object" where
  "call_get_info g self = (g self, self\<lparr>get_info_calls := get_info_calls self + 1\<rparr>)"

text \<open>\<^verbatim>\<open>AttribDict(d)\<close> gives attribute access to the entries of \<open>d\<close> and keeps them.\<close>

definition AttribDict :: "'v \<Rightarrow> 'v" where
  "AttribDict d = d"

definition info :: "('v db_object \<Rightarrow> 'v) \<Rightarrow> 'v db_object \<Rightarrow> (error + 'v) \<times> 'v db_object" where
  "info g self =
     (let self =
        (if \<not> hasattr self ''__cached_info''
         then (case call_get_info g self of
                 (d, self) \<Rightarrow>
                   setattr self (mangle ''BaseInstaseisDB'' ''__cached_info'') (AttribDict d))
         else self)
      in (getattr self (mangle ''BaseInstaseisDB'' ''__cached_info''), self))"

text \<open>The instance after \<open>n\<close> successive reads of the property.\<close>

fun info_reads :: "('v db_object \<Rightarrow> 'v) \<Rightarrow> nat \<Rightarrow> 'v db_object \<Rightarrow> 'v db_object" where
  "info_reads g 0 self = self"
| "info_reads g (Suc n) self = info_reads g n (snd (info g self))"

section \<open>A sample database\<close>

text \<open>
  Modelled from the spec: the spatial index of \<^verbatim>\<open>mesh.Mesh\<close> is missing from the sources.
  \<open>query(point, k)\<close> gives up to \<open>k\<close> element ids, nearest reference vertex first, by
  Euclidean distance in the (S,Z) plane. The distances are returned squared.
\<close>

definition sq_dist :: "real \<times> real \<Rightarrow> real list \<Rightarrow> real" where
  "sq_dist v p = (fst v - p ! 0)\<^sup>2 + (snd v - p ! 1)\<^sup>2"

definition knn_query :: "(real \<times> real) list \<Rightarrow> real list \<Rightarrow> nat \<Rightarrow> real list \<times> nat list" where
  "knn_query pts p k =
     (let d2 = (\<lambda>i. sq_dist (pts ! i) p);
          idxs = take k (sort_key d2 [0..<length pts])
      in (map d2 idxs, idxs))"

text \<open>
  Modelled from the spec: \<^verbatim>\<open>finite_elem_mapping.inside_element\<close> is missing from the
  sources. For an axis-parallel rectangle with corners 0 and 2 opposite, the inverse
  mapping is in closed form, and the point is inside when both reference coordinates are
  within the tolerance of \<open>[-1, 1]\<close>.
\<close>

definition rect_inside ::
  "real \<Rightarrow> real \<Rightarrow> (real \<times> real) list \<Rightarrow> int \<Rightarrow> real \<Rightarrow> bool \<times> real \<times> real" where
  "rect_inside s z corner_points et tolerance =
     (case (corner_points ! 0, corner_points ! 2) of
        ((s0, z0), (s1, z1)) \<Rightarrow>
          (let xi = (2 * s - s0 - s1) / (s1 - s0);
               eta = (2 * z - z0 - z1) / (z1 - z0)
           in (\<bar>xi\<bar> \<le> 1 + tolerance \<and> \<bar>eta\<bar> \<le> 1 + tolerance, xi, eta)))"

text \<open>
  Modelled from the spec: the interpolation of \<^verbatim>\<open>spectral_basis\<close> is missing from the
  sources. It evaluates the tensor-product Lagrange basis on the two point sets.
\<close>

definition lagrange_basis :: "real list \<Rightarrow> nat \<Rightarrow> real \<Rightarrow> real" where
  "lagrange_basis pts i x =
     prod_list (map (\<lambda>k. (x - pts ! k) / (pts ! i - pts ! k))
       (filter (\<lambda>k. k \<noteq> i) [0..<length pts]))"

definition tensor_interpol ::
  "real list \<Rightarrow> real list \<Rightarrow> real list list \<Rightarrow> real \<Rightarrow> real \<Rightarrow> real" where
  "tensor_interpol col_points_xi col_points_eta f xi eta =
     sum_list (map (\<lambda>j. sum_list (map (\<lambda>i.
         f ! j ! i * lagrange_basis col_points_xi i xi * lagrange_basis col_points_eta j eta)
       [0..<length col_points_xi])) [0..<length col_points_eta])"

text \<open>
  Stand-ins for the strain kernels, the tensor rotations and the azimuth factor, which the
  sources do not contain; they only need to be distinguishable from one another, and the
  kernel to depend on the matrix \<open>GT\<close> it is given. The frame rotation is the one of a
  source in the half plane \<open>y = 0\<close> seen from a receiver at the pole: \<open>s = \<bar>x\<bar>\<close>,
  \<open>phi = 0\<close>, \<open>z\<close> unchanged.
\<close>

definition ex_kernel :: "real \<Rightarrow> strain_kernel" where
  "ex_kernel c u G GT col_points_xi col_points_eta np nd corner_points et ax i =
     map (map (\<lambda>cell. c * (cell ! 0 + cell ! 2) + real i + GT ! 0 ! 0)) u"

definition ex_modules :: modules where
  "ex_modules = \<lparr>
     rotate_frame_rd = (\<lambda>x y z lon colat. (\<bar>x\<bar>, 0, z)),
     inside_element = rect_inside,
     strain_monopole = ex_kernel 1,
     strain_dipole = ex_kernel 2,
     strain_quadpole = ex_kernel 3,
     lagrange_interpol_2D = tensor_interpol,
     rotate_symm_tensor_voigt_xyz_src_to_xyz_earth_1d =
       (\<lambda>m a b. Voigt (m1 m) (m0 m) (m2 m) (m3 m) (m4 m) (m5 m)),
     rotate_symm_tensor_voigt_xyz_earth_to_xyz_src_1d =
       (\<lambda>m a b. Voigt (m0 m + 1) (m1 m) (m2 m) (m3 m) (m4 m) (m5 m)),
     rotate_symm_tensor_voigt_xyz_to_src_1d =
       (\<lambda>m phi. Voigt (2 * m0 m) (m1 m) (m2 m) (m3 m) (m4 m) (m5 m)),
     azim_factor_bw = (\<lambda>phi v n k. if k = 1 then 1 else 3) \<rparr>"

text \<open>
  Seven rectangular elements, node \<open>4 e + c\<close> being corner \<open>c\<close> of element \<open>e\<close>: the
  elements 0..5 are the unit squares \<open>[10 + e, 11 + e] \<times> [10, 11]\<close>, element 6 is the
  square \<open>[0, 10] \<times> [0, 10]\<close>, which touches the axis. The spatial index holds the first
  corner of each element.
\<close>

definition ex_node :: "nat \<Rightarrow> real \<times> real" where
  "ex_node n =
     (let e = n div 4; c = n mod 4;
          dx = (if c = 1 \<or> c = 2 then 1 else 0);
          dz = (if c = 2 \<or> c = 3 then 1 else 0)
      in if e < 6 then (10 + real e + dx, 10 + dz) else (10 * dx, 10 * dz))"

definition ex_mesh_group :: mesh_group where
  "ex_mesh_group = \<lparr>
     fem_mesh = (\<lambda>e. [4 * e, 4 * e + 1, 4 * e + 2, 4 * e + 3]),
     eltype = (\<lambda>e. 0),
     mesh_S = (\<lambda>n. fst (ex_node n)),
     mesh_Z = (\<lambda>n. snd (ex_node n)),
     sem_mesh = (\<lambda>e ipol jpol. int (4 * e + 2 * ipol + jpol)),
     axis = (\<lambda>e. if e = 6 then 1 else 0) \<rparr>"

definition ex_Mesh :: "string \<Rightarrow> Mesh" where
  "ex_Mesh dt = \<lparr>
     kdtree = knn_query (map (\<lambda>e. ex_node (4 * e)) [0..<7]),
     dump_type = dt,
     G2 = [[1, 2], [3, 4]],
     G1T = [[5, 6], [7, 8]],
     G2T = [[1, 3], [2, 4]],
     glj_points = [- 1, 1],
     gll_points = [- 1, 1],
     ndumps = 2,
     npol = 1,
     chunks = (1, 4),
     snapshots =
       [''disp_s'' \<mapsto> (\<lambda>t n. real t + real_of_int n), ''disp_z'' \<mapsto> (\<lambda>t n. 10 * real t)],
     excitation_type = ''monopole'',
     amplitude = 2 \<rparr>"

definition ex_db :: "string \<Rightarrow> AxiSEMDB" where
  "ex_db dt = \<lparr> files_px_Mesh = ex_mesh_group, meshes_px = ex_Mesh dt \<rparr>"

text \<open>A source in the half plane \<open>y = 0\<close>, at \<open>(x, z)\<close> metres in the frame of the mesh.\<close>

definition ex_source :: "real \<Rightarrow> real \<Rightarrow> source" where
  "ex_source x z = \<lparr> src_x = x / 1000, src_y = 0, src_z = z / 1000,
     src_tensor_voigt = Voigt 1 2 3 4 5 6, src_longitude = 0, src_colatitude = 0 \<rparr>"

definition ex_receiver :: receiver where
  "ex_receiver = \<lparr> rcv_longitude = 0, rcv_colatitude = 0 \<rparr>"

section \<open>Auxiliary notions for the proofs\<close>

text \<open>The buffer has the shape \<^verbatim>\<open>(nd, np + 1, np + 1, 3)\<close>.\<close>

definition shaped :: "nat \<Rightarrow> nat \<Rightarrow> displ_buffer \<Rightarrow> bool" where
  "shaped nd np u \<longleftrightarrow>
     length u = nd \<and>
     list_all (\<lambda>plane. length plane = np + 1 \<and>
        list_all (\<lambda>row. length row = np + 1 \<and> list_all (\<lambda>cell. length cell = 3) row) plane) u"

text \<open>The variable of the field store that fills component \<open>c\<close> of the buffer, if any.\<close>

definition stored ::
  "(string \<rightharpoonup> (nat \<Rightarrow> int \<Rightarrow> real)) \<Rightarrow> (nat \<times> string) list \<Rightarrow> nat
     \<Rightarrow> (nat \<Rightarrow> int \<Rightarrow> real) option" where
  "stored mesh_dict vars c = (case map_of vars c of None \<Rightarrow> None | Some var \<Rightarrow> mesh_dict var)"

text \<open>
  The value that line 129 interpolates for strain component \<open>i\<close> at one time sample
  \<open>s\<close> of the strain field.
\<close>

definition interpolated ::
  "modules \<Rightarrow> real list \<Rightarrow> real list \<Rightarrow> real \<Rightarrow> real \<Rightarrow> strain_sample \<Rightarrow> nat \<Rightarrow> real" where
  "interpolated md col_points_xi col_points_eta xi eta s i =
     lagrange_interpol_2D md col_points_xi col_points_eta (s i) xi eta"

section \<open>Properties\<close>

subsection \<open>The displacement buffer\<close>

lemma shaped_nth:
  "shaped nd np u \<longleftrightarrow>
     length u = nd \<and>
     (\<forall>t<nd. length (u ! t) = np + 1 \<and>
        (\<forall>j\<le>np. length (u ! t ! j) = np + 1 \<and> (\<forall>i\<le>np. length (u ! t ! j ! i) = 3)))"
  unfolding shaped_def list_all_length
  by (auto simp add: less_Suc_eq_le)

lemma nth_list_update_if:
  "xs[i := x] ! j = (if i = j \<and> i < length xs then x else xs ! j)"
  by (cases "i < length xs") (auto simp add: nth_list_update list_update_beyond)

lemma shaped_zeros: "shaped nd np (zeros nd np)"
  by (simp add: shaped_nth zeros_def less_Suc_eq_le del: replicate.simps)

lemma assign_column_nth:
  assumes "t < length u" "t < length col"
  shows "assign_column u j i c col ! t =
           (u ! t)[j := (u ! t ! j)[i := (u ! t ! j ! i)[c := col ! t]]]"
  using assms by (simp add: assign_column_def)

lemma shaped_assign_column:
  assumes "shaped nd np u" "length col = nd"
  shows "shaped nd np (assign_column u j i c col)"
proof -
  have len: "length (assign_column u j i c col) = nd"
    using assms by (simp add: assign_column_def shaped_nth)
  have "length (assign_column u j i c col ! t) = np + 1 \<and>
        (\<forall>j'\<le>np. length (assign_column u j i c col ! t ! j') = np + 1 \<and>
           (\<forall>i'\<le>np. length (assign_column u j i c col ! t ! j' ! i') = 3))"
    if t: "t < nd" for t
  proof -
    have eq: "assign_column u j i c col ! t =
           (u ! t)[j := (u ! t ! j)[i := (u ! t ! j ! i)[c := col ! t]]]"
      using assms t by (simp add: assign_column_nth shaped_nth)
    have sh: "length (u ! t) = np + 1"
      "\<And>j'. j' \<le> np \<Longrightarrow> length (u ! t ! j') = np + 1"
      "\<And>j' i'. j' \<le> np \<Longrightarrow> i' \<le> np \<Longrightarrow> length (u ! t ! j' ! i') = 3"
      using assms(1) t by (simp_all add: shaped_nth)
    show ?thesis
      unfolding eq using sh by (simp add: nth_list_update_if)
  qed
  with len show ?thesis by (simp add: shaped_nth)
qed

lemma assign_column_entry:
  assumes "shaped nd np u" "length col = nd" "t < nd" "j \<le> np" "i \<le> np" "c < 3"
    "j' \<le> np" "i' \<le> np" "c' < 3"
  shows "assign_column u j i c col ! t ! j' ! i' ! c' =
           (if j' = j \<and> i' = i \<and> c' = c then col ! t else u ! t ! j' ! i' ! c')"
  using assms by (auto simp add: shaped_nth assign_column_nth nth_list_update)

lemma length_read_column: "length (read_column v nd sc) = nd"
  by (simp add: read_column_def)

lemma read_column_nth: "t < nd \<Longrightarrow> read_column v nd sc ! t = v t sc"
  by (simp add: read_column_def)

lemma shaped_load_vars:
  "shaped nd np u \<Longrightarrow> shaped nd np (load_vars mesh_dict nd sc i j vars u)"
  by (induction vars arbitrary: u)
    (auto simp add: shaped_assign_column length_read_column split: option.splits)

lemma load_vars_entry:
  assumes "shaped nd np u" "\<forall>c\<in>fst ` set vars. c < 3" "distinct (map fst vars)"
    "t < nd" "j \<le> np" "i \<le> np" "j' \<le> np" "i' \<le> np" "c' < 3"
  shows "load_vars mesh_dict nd sc i j vars u ! t ! j' ! i' ! c' =
           (if j' = j \<and> i' = i
            then (case stored mesh_dict vars c' of
                    None \<Rightarrow> u ! t ! j' ! i' ! c' | Some v \<Rightarrow> v t sc)
            else u ! t ! j' ! i' ! c')"
  using assms
proof (induction vars arbitrary: u)
  case Nil
  then show ?case by (simp add: stored_def)
next
  case (Cons a vars)
  obtain c var where a: "a = (c, var)" by (cases a)
  have c3: "c < 3" using Cons.prems(2) a by simp
  have notin: "c \<notin> fst ` set vars" using Cons.prems(3) a by simp
  then have mo: "map_of vars c = None" by (simp add: map_of_eq_None_iff)
  show ?case
  proof (cases "mesh_dict var")
    case None
    then show ?thesis using Cons a mo
      by (auto simp add: stored_def split: option.splits)
  next
    case (Some v)
    let ?u = "assign_column u j i c (read_column v nd sc)"
    have sh: "shaped nd np ?u"
      using Cons.prems(1) by (simp add: shaped_assign_column length_read_column)
    have ih: "load_vars mesh_dict nd sc i j vars ?u ! t ! j' ! i' ! c' =
           (if j' = j \<and> i' = i
            then (case stored mesh_dict vars c' of
                    None \<Rightarrow> ?u ! t ! j' ! i' ! c' | Some v \<Rightarrow> v t sc)
            else ?u ! t ! j' ! i' ! c')"
      using Cons.IH[OF sh] Cons.prems a by simp
    have ent: "?u ! t ! j' ! i' ! c' =
        (if j' = j \<and> i' = i \<and> c' = c then v t sc else u ! t ! j' ! i' ! c')"
      using assign_column_entry[OF Cons.prems(1) length_read_column Cons.prems(4,5,6) c3 Cons.prems(7,8,9)]
      by (simp add: read_column_nth Cons.prems(4))
    show ?thesis using Some a ih ent mo
      by (auto simp add: stored_def split: option.splits)
  qed
qed


lemma shaped_inner_fold:
  "shaped nd np u \<Longrightarrow>
   shaped nd np (fold (\<lambda>jpol utemp. load_vars mesh_dict nd (sc jpol) i jpol vars utemp) js u)"
  by (induction js arbitrary: u) (simp_all add: shaped_load_vars)

lemma inner_fold_entry:
  assumes "shaped nd np u" "\<forall>c\<in>fst ` set vars. c < 3" "distinct (map fst vars)"
    "t < nd" "\<forall>j\<in>set js. j \<le> np" "i \<le> np" "j' \<le> np" "i' \<le> np" "c' < 3"
  shows "fold (\<lambda>jpol utemp. load_vars mesh_dict nd (sc jpol) i jpol vars utemp) js u
           ! t ! j' ! i' ! c' =
           (if j' \<in> set js \<and> i' = i
            then (case stored mesh_dict vars c' of
                    None \<Rightarrow> u ! t ! j' ! i' ! c' | Some v \<Rightarrow> v t (sc j'))
            else u ! t ! j' ! i' ! c')"
  using assms
proof (induction js arbitrary: u)
  case Nil
  then show ?case by simp
next
  case (Cons j js)
  let ?u = "load_vars mesh_dict nd (sc j) i j vars u"
  have sh: "shaped nd np ?u" using Cons.prems(1) by (rule shaped_load_vars)
  have j: "j \<le> np" using Cons.prems(5) by simp
  have ent: "?u ! t ! j' ! i' ! c' =
           (if j' = j \<and> i' = i
            then (case stored mesh_dict vars c' of
                    None \<Rightarrow> u ! t ! j' ! i' ! c' | Some v \<Rightarrow> v t (sc j))
            else u ! t ! j' ! i' ! c')"
    by (rule load_vars_entry[OF Cons.prems(1,2,3,4) j Cons.prems(6,7,8,9)])
  have ih: "fold (\<lambda>jpol utemp. load_vars mesh_dict nd (sc jpol) i jpol vars utemp) js ?u
           ! t ! j' ! i' ! c' =
           (if j' \<in> set js \<and> i' = i
            then (case stored mesh_dict vars c' of
                    None \<Rightarrow> ?u ! t ! j' ! i' ! c' | Some v \<Rightarrow> v t (sc j'))
            else ?u ! t ! j' ! i' ! c')"
    using Cons.IH[OF sh] Cons.prems by simp
  show ?case using ih ent by (auto split: option.splits)
qed


lemma shaped_outer_fold:
  "shaped nd np u \<Longrightarrow>
   shaped nd np
     (fold (\<lambda>ipol utemp.
          fold (\<lambda>jpol utemp. load_vars mesh_dict nd (sc ipol jpol) ipol jpol vars utemp) js utemp)
        is u)"
  by (induction "is" arbitrary: u) (simp_all add: shaped_inner_fold)

lemma outer_fold_entry:
  assumes "shaped nd np u" "\<forall>c\<in>fst ` set vars. c < 3" "distinct (map fst vars)"
    "t < nd" "\<forall>j\<in>set js. j \<le> np" "\<forall>i\<in>set is. i \<le> np" "j' \<le> np" "i' \<le> np" "c' < 3"
  shows "fold (\<lambda>ipol utemp.
            fold (\<lambda>jpol utemp. load_vars mesh_dict nd (sc ipol jpol) ipol jpol vars utemp) js utemp)
          is u ! t ! j' ! i' ! c' =
           (if j' \<in> set js \<and> i' \<in> set is
            then (case stored mesh_dict vars c' of
                    None \<Rightarrow> u ! t ! j' ! i' ! c' | Some v \<Rightarrow> v t (sc i' j'))
            else u ! t ! j' ! i' ! c')"
  using assms
proof (induction "is" arbitrary: u)
  case Nil
  then show ?case by simp
next
  case (Cons i "is")
  let ?u = "fold (\<lambda>jpol utemp. load_vars mesh_dict nd (sc i jpol) i jpol vars utemp) js u"
  have sh: "shaped nd np ?u" using Cons.prems(1) by (rule shaped_inner_fold)
  have i: "i \<le> np" using Cons.prems(6) by simp
  have ent: "?u ! t ! j' ! i' ! c' =
           (if j' \<in> set js \<and> i' = i
            then (case stored mesh_dict vars c' of
                    None \<Rightarrow> u ! t ! j' ! i' ! c' | Some v \<Rightarrow> v t (sc i j'))
            else u ! t ! j' ! i' ! c')"
    by (rule inner_fold_entry[OF Cons.prems(1,2,3,4,5) i Cons.prems(7,8,9)])
  have ih: "fold (\<lambda>ipol utemp.
            fold (\<lambda>jpol utemp. load_vars mesh_dict nd (sc ipol jpol) ipol jpol vars utemp) js utemp)
          is ?u ! t ! j' ! i' ! c' =
           (if j' \<in> set js \<and> i' \<in> set is
            then (case stored mesh_dict vars c' of
                    None \<Rightarrow> ?u ! t ! j' ! i' ! c' | Some v \<Rightarrow> v t (sc i' j'))
            else ?u ! t ! j' ! i' ! c')"
    using Cons.IH[OF sh] Cons.prems by simp
  show ?case using ih ent by (auto split: option.splits)
qed

lemma start_chunk_of_raw: "start_chunk_of gll_point_ids chnks ipol jpol = gll_point_ids ipol jpol"
  by (simp add: start_chunk_of_def)

lemma disp_vars_eq: "disp_vars = [(0, ''disp_s''), (1, ''disp_p''), (2, ''disp_z'')]"
  by (simp add: disp_vars_def enumerate_eq_zip upt_rec)

lemma shaped_load_displacement:
  "shaped (ndumps mesh) (npol mesh) (load_displacement mesh gll_point_ids)"
  unfolding load_displacement_def by (rule shaped_outer_fold[OF shaped_zeros])

lemma zeros_entry:
  "t < nd \<Longrightarrow> j \<le> np \<Longrightarrow> i \<le> np \<Longrightarrow> c < 3 \<Longrightarrow> zeros nd np ! t ! j ! i ! c = 0"
  by (simp add: zeros_def less_Suc_eq_le del: replicate.simps)

lemma load_displacement_entry:
  assumes "t < ndumps mesh" "jpol \<le> npol mesh" "ipol \<le> npol mesh" "c < 3"
  shows "load_displacement mesh gll_point_ids ! t ! jpol ! ipol ! c =
           (case stored (snapshots mesh) disp_vars c of
              None \<Rightarrow> 0
            | Some v \<Rightarrow> v t (gll_point_ids ipol jpol))"
proof -
  have vars: "\<forall>c\<in>fst ` set disp_vars. c < 3" "distinct (map fst disp_vars)"
    by (simp_all add: disp_vars_eq)
  have rng: "\<forall>j\<in>set [0..<npol mesh + 1]. j \<le> npol mesh" by auto
  have mem: "jpol \<in> set [0..<npol mesh + 1]" "ipol \<in> set [0..<npol mesh + 1]"
    using assms by auto
  let ?sc = "start_chunk_of gll_point_ids (chunks mesh)"
  let ?z = "zeros (ndumps mesh) (npol mesh)"
  have "load_displacement mesh gll_point_ids ! t ! jpol ! ipol ! c =
          (if jpol \<in> set [0..<npol mesh + 1] \<and> ipol \<in> set [0..<npol mesh + 1]
           then (case stored (snapshots mesh) disp_vars c of
                   None \<Rightarrow> ?z ! t ! jpol ! ipol ! c | Some v \<Rightarrow> v t (?sc ipol jpol))
           else ?z ! t ! jpol ! ipol ! c)"
    unfolding load_displacement_def
    by (rule outer_fold_entry[OF shaped_zeros vars assms(1) rng rng assms(2,3,4)])
  also have "\<dots> = (case stored (snapshots mesh) disp_vars c of
                   None \<Rightarrow> ?z ! t ! jpol ! ipol ! c | Some v \<Rightarrow> v t (?sc ipol jpol))"
    using mem by (simp only: if_True simp_thms)
  also have "\<dots> = (case stored (snapshots mesh) disp_vars c of
              None \<Rightarrow> 0
            | Some v \<Rightarrow> v t (gll_point_ids ipol jpol))"
    by (simp only: zeros_entry[OF assms] start_chunk_of_raw)
  finally show ?thesis .
qed

subsection \<open>The element search\<close>

lemma find_element_none:
  "\<forall>idx\<in>set cs. \<not> fst (element_test md mesh s z idx) \<Longrightarrow>
   find_element md mesh s z cs = Inl (ValueError ''Element not found'')"
  by (induction cs) (auto split: prod.splits)

lemma find_element_first:
  assumes "\<forall>i\<in>set pre. \<not> fst (element_test md mesh s z i)"
    and "element_test md mesh s z idx = (True, xi, eta)"
  shows "find_element md mesh s z (pre @ idx # post) =
           Inr (idx, corner_points_of mesh idx, eltype mesh idx, xi, eta)"
  using assms by (induction pre) (auto split: prod.splits)

lemma find_element_Inl:
  "find_element md mesh s z cs = Inl e \<Longrightarrow> e = ValueError ''Element not found''"
  by (induction cs) (auto split: prod.splits if_splits)

lemma find_element_Inr:
  "find_element md mesh s z cs = Inr (idx, cp, et, xi, eta) \<Longrightarrow>
   \<exists>pre post. cs = pre @ idx # post \<and> (\<forall>i\<in>set pre. \<not> fst (element_test md mesh s z i)) \<and>
     element_test md mesh s z idx = (True, xi, eta) \<and>
     cp = corner_points_of mesh idx \<and> et = eltype mesh idx"
proof (induction cs)
  case Nil
  then show ?case by simp
next
  case (Cons a cs)
  show ?case
  proof (cases "fst (element_test md mesh s z a)")
    case True
    with Cons.prems have "a = idx" "element_test md mesh s z idx = (True, xi, eta)"
      "cp = corner_points_of mesh idx" "et = eltype mesh idx"
      by (auto split: prod.splits)
    then have "a # cs = [] @ idx # cs \<and> (\<forall>i\<in>set []. \<not> fst (element_test md mesh s z i)) \<and>
        element_test md mesh s z idx = (True, xi, eta) \<and>
        cp = corner_points_of mesh idx \<and> et = eltype mesh idx"
      by simp
    then show ?thesis by blast
  next
    case False
    with Cons.prems have "find_element md mesh s z cs = Inr (idx, cp, et, xi, eta)"
      by (auto split: prod.splits)
    from Cons.IH[OF this] obtain pre post where
      *: "cs = pre @ idx # post" "\<forall>i\<in>set pre. \<not> fst (element_test md mesh s z i)"
      "element_test md mesh s z idx = (True, xi, eta)"
      "cp = corner_points_of mesh idx" "et = eltype mesh idx"
      by blast
    have "a # cs = (a # pre) @ idx # post \<and>
        (\<forall>i\<in>set (a # pre). \<not> fst (element_test md mesh s z i)) \<and>
        element_test md mesh s z idx = (True, xi, eta) \<and>
        cp = corner_points_of mesh idx \<and> et = eltype mesh idx"
      using * False by simp
    then show ?thesis by blast
  qed
qed

lemma locate_none:
  assumes "\<forall>i\<in>set (candidates md self source receiver).
             \<not> fst (inside_result md self source receiver i)"
  shows "locate md self source receiver = Inl (ValueError ''Element not found'')"
proof -
  obtain s phi z where r: "rotmesh md source receiver = (s, phi, z)"
    by (cases "rotmesh md source receiver")
  have "\<forall>i\<in>set (candidates md self source receiver).
          \<not> fst (element_test md (files_px_Mesh self) s z i)"
    using assms r by (simp add: inside_result_def)
  then show ?thesis
    by (simp add: locate_def r find_element_none)
qed

lemma locate_first:
  assumes "candidates md self source receiver = pre @ idx # post"
    and "\<forall>i\<in>set pre. \<not> fst (inside_result md self source receiver i)"
    and "inside_result md self source receiver idx = (True, xi, eta)"
  shows "locate md self source receiver =
           Inr (idx, corner_points_of (files_px_Mesh self) idx, eltype (files_px_Mesh self) idx,
                xi, eta)"
proof -
  obtain s phi z where r: "rotmesh md source receiver = (s, phi, z)"
    by (cases "rotmesh md source receiver")
  have "\<forall>i\<in>set pre. \<not> fst (element_test md (files_px_Mesh self) s z i)"
    and "element_test md (files_px_Mesh self) s z idx = (True, xi, eta)"
    using assms r by (simp_all add: inside_result_def)
  then show ?thesis
    by (simp add: locate_def r assms(1) find_element_first)
qed

lemma locate_Inl:
  "locate md self source receiver = Inl e \<Longrightarrow> e = ValueError ''Element not found''"
  by (auto simp add: locate_def split: prod.splits dest: find_element_Inl)

lemma locate_Inr:
  assumes "locate md self source receiver = Inr (idx, cp, et, xi, eta)"
  shows "\<exists>pre post. candidates md self source receiver = pre @ idx # post \<and>
     (\<forall>i\<in>set pre. \<not> fst (inside_result md self source receiver i)) \<and>
     inside_result md self source receiver idx = (True, xi, eta)"
proof -
  obtain s phi z where r: "rotmesh md source receiver = (s, phi, z)"
    by (cases "rotmesh md source receiver")
  from assms have "find_element md (files_px_Mesh self) s z (candidates md self source receiver) =
      Inr (idx, cp, et, xi, eta)"
    by (simp add: locate_def r)
  from find_element_Inr[OF this] show ?thesis
    by (simp add: inside_result_def r) blast
qed

lemma find_element_some:
  "i \<in> set cs \<Longrightarrow> fst (element_test md mesh s z i) \<Longrightarrow>
   \<exists>r. find_element md mesh s z cs = Inr r"
  by (induction cs) (auto split: prod.splits)

lemma locate_Inl_none:
  assumes "locate md self source receiver = Inl e"
  shows "\<forall>i\<in>set (candidates md self source receiver).
           \<not> fst (inside_result md self source receiver i)"
proof
  fix i
  assume i: "i \<in> set (candidates md self source receiver)"
  obtain s phi z where r: "rotmesh md source receiver = (s, phi, z)"
    by (cases "rotmesh md source receiver")
  show "\<not> fst (inside_result md self source receiver i)"
  proof
    assume "fst (inside_result md self source receiver i)"
    then have "fst (element_test md (files_px_Mesh self) s z i)"
      by (simp add: inside_result_def r)
    from find_element_some[OF i this] assms show False
      by (auto simp add: locate_def r)
  qed
qed

subsection \<open>The branches of \<^verbatim>\<open>get_seismogram\<close>\<close>

lemma get_seismogram_not_located:
  "locate md self source receiver = Inl e \<Longrightarrow>
   get_seismogram md self source receiver component = Inl e"
  by (simp add: get_seismogram_def split: prod.splits)

lemma get_seismogram_other_component:
  "locate md self source receiver = Inr r \<Longrightarrow> component \<noteq> ''N'' \<Longrightarrow>
   get_seismogram md self source receiver component = Inr None"
  by (simp add: get_seismogram_def Let_def split: prod.splits)

lemma get_seismogram_N:
  assumes "locate md self source receiver = Inr (id_elem, corner_points, et, xi, eta)"
  shows "get_seismogram md self source receiver ''N'' =
           (case seismogram_N md (meshes_px self) source receiver
                   (fst (snd (rotmesh md source receiver)))
                   (sem_mesh (files_px_Mesh self) id_elem)
                   (axis (files_px_Mesh self) id_elem \<noteq> 0) corner_points et xi eta of
              Inl e \<Rightarrow> Inl e
            | Inr final \<Rightarrow> Inr (Some final))"
  using assms by (simp add: get_seismogram_def Let_def split: prod.splits)

lemma seismogram_N_unsupported:
  "strip (dump_type mesh) \<noteq> ''displ_only'' \<Longrightarrow>
   seismogram_N md mesh source receiver phi ids ax cp et xi eta = Inl NotImplementedError"
  by (simp add: seismogram_N_def)

lemma seismogram_N_supported:
  assumes "strip (dump_type mesh) = ''displ_only''"
    and "strain_fct_map md (excitation_type mesh) = Some kern"
    and "select_basis mesh ax = (G, GT, col_points_xi, col_points_eta)"
  shows "seismogram_N md mesh source receiver phi ids ax cp et xi eta =
           Inr (contract
                 (interpolate_strain md col_points_xi col_points_eta
                    (strain_td kern (load_displacement mesh ids) G GT col_points_xi col_points_eta
                       (npol mesh) (ndumps mesh) cp et ax) xi eta)
                 (rotate_moment md source receiver phi (amplitude mesh))
                 (azim_factor_bw md phi [0, 1, 0] 2 1)
                 (azim_factor_bw md phi [0, 1, 0] 2 2))"
  using assms by (simp add: seismogram_N_def Let_def)

lemma seismogram_N_Inr:
  assumes "seismogram_N md mesh source receiver phi ids ax cp et xi eta = Inr final"
  shows "strip (dump_type mesh) = ''displ_only'' \<and>
         (\<exists>kern. strain_fct_map md (excitation_type mesh) = Some kern)"
  using assms by (auto simp add: seismogram_N_def Let_def split: if_splits prod.splits option.splits)

subsection \<open>Interpolation and contraction\<close>

lemma set_column_map:
  "set_column (map f xs) i (map g xs) = map (\<lambda>x. (f x)[i := g x]) xs"
  by (induction xs) (simp_all add: set_column_def)

lemma scale_column_map:
  "scale_column (map f xs) i c = map (\<lambda>x. (f x)[i := f x ! i * c]) xs"
  by (simp add: scale_column_def)

lemma column_map: "column (map f xs) i = map (\<lambda>x. f x ! i) xs"
  by (simp add: column_def)

lemma add_to_map: "add_to (map f xs) (map g xs) = map (\<lambda>x. f x + g x) xs"
  by (induction xs) (simp_all add: add_to_def)

lemma interpol_td_component:
  "lagrange_interpol_2D_td md cxi ceta (strain_component strain i) xi eta =
     map (\<lambda>s. interpolated md cxi ceta xi eta s i) strain"
  by (simp add: lagrange_interpol_2D_td_def strain_component_def interpolated_def)

lemma upt_6: "[0..<6] = [0, 1, 2, 3, 4, 5]"
  by (simp add: upt_rec)

lemma interpolate_strain_rows:
  "interpolate_strain md cxi ceta strain xi eta =
     map (\<lambda>s. [interpolated md cxi ceta xi eta s 0,
                interpolated md cxi ceta xi eta s 1,
                interpolated md cxi ceta xi eta s 2,
                interpolated md cxi ceta xi eta s 3 * (- 1),
                interpolated md cxi ceta xi eta s 4,
                interpolated md cxi ceta xi eta s 5 * (- 1)]) strain"
proof -
  have z: "replicate (length strain) (replicate 6 (0::real)) =
             map (\<lambda>s. [0, 0, 0, 0, 0, 0]) strain"
    by (simp add: map_replicate_const numeral_eq_Suc)
  show ?thesis
    unfolding interpolate_strain_def Let_def z upt_6
    by (simp add: interpol_td_component set_column_map scale_column_map numeral_eq_Suc)
qed

lemma contract_rows:
  "contract (map r xs) mij fac_1 fac_2 =
     map (\<lambda>x. (0 + r x ! 0 * m0 mij * 1 * fac_1 + r x ! 1 * m1 mij * 1 * fac_1
                 + r x ! 2 * m2 mij * 1 * fac_1 + r x ! 3 * m3 mij * 2 * fac_2
                 + r x ! 4 * m4 mij * 2 * fac_1 + r x ! 5 * m5 mij * 2 * fac_2) * (- 1)) xs"
proof -
  have z: "replicate (length (map r xs)) (0::real) = map (\<lambda>x. 0) xs"
    by (simp add: map_replicate_const)
  show ?thesis
    unfolding contract_def Let_def z column_map map_map comp_def add_to_map
    by simp
qed

lemma contract_interpolate:
  "contract (interpolate_strain md cxi ceta strain xi eta) mij fac_1 fac_2 =
     map (\<lambda>s. - (interpolated md cxi ceta xi eta s 0 * m0 mij * 1 * fac_1
                + interpolated md cxi ceta xi eta s 1 * m1 mij * 1 * fac_1
                + interpolated md cxi ceta xi eta s 2 * m2 mij * 1 * fac_1
                + (- interpolated md cxi ceta xi eta s 3) * m3 mij * 2 * fac_2
                + interpolated md cxi ceta xi eta s 4 * m4 mij * 2 * fac_1
                + (- interpolated md cxi ceta xi eta s 5) * m5 mij * 2 * fac_2)) strain"
  unfolding interpolate_strain_rows contract_rows by simp

lemma length_contract_interpolate:
  "length (contract (interpolate_strain md cxi ceta strain xi eta) mij fac_1 fac_2) = length strain"
  by (simp add: contract_interpolate)

lemma length_strain_td:
  "length (strain_td kern utemp G GT cxi ceta np nd cp et ax) = length utemp"
  by (simp add: strain_td_def)

lemma length_load_displacement: "length (load_displacement mesh ids) = ndumps mesh"
  using shaped_load_displacement[of mesh ids] by (simp add: shaped_nth)

lemma get_seismogram_N_supported:
  assumes "locate md self source receiver = Inr (id_elem, cp, et, xi, eta)"
    and "strip (dump_type (meshes_px self)) = ''displ_only''"
    and "strain_fct_map md (excitation_type (meshes_px self)) = Some kern"
    and "select_basis (meshes_px self) (axis (files_px_Mesh self) id_elem \<noteq> 0) =
           (G, GT, col_points_xi, col_points_eta)"
  shows "get_seismogram md self source receiver ''N'' =
           Inr (Some (contract
             (interpolate_strain md col_points_xi col_points_eta
                (strain_td kern
                   (load_displacement (meshes_px self) (sem_mesh (files_px_Mesh self) id_elem))
                   G GT col_points_xi col_points_eta (npol (meshes_px self))
                   (ndumps (meshes_px self)) cp et (axis (files_px_Mesh self) id_elem \<noteq> 0))
                xi eta)
             (rotate_moment md source receiver (fst (snd (rotmesh md source receiver)))
                (amplitude (meshes_px self)))
             (azim_factor_bw md (fst (snd (rotmesh md source receiver))) [0, 1, 0] 2 1)
             (azim_factor_bw md (fst (snd (rotmesh md source receiver))) [0, 1, 0] 2 2)))"
  unfolding get_seismogram_N[OF assms(1)] seismogram_N_supported[OF assms(2,3,4)] by simp

lemma get_seismogram_N_unsupported:
  assumes "locate md self source receiver = Inr r"
    and "strip (dump_type (meshes_px self)) \<noteq> ''displ_only''"
  shows "get_seismogram md self source receiver ''N'' = Inl NotImplementedError"
proof -
  obtain id_elem cp et xi eta where r: "r = (id_elem, cp, et, xi, eta)"
    by (cases r)
  show ?thesis
    using assms(1) unfolding r
    by (simp add: get_seismogram_N seismogram_N_unsupported[OF assms(2)])
qed

lemma stored_disp_vars:
  assumes "(c, var) \<in> set disp_vars"
  shows "stored mesh_dict disp_vars c = mesh_dict var" and "c < 3"
  using assms by (auto simp add: stored_def disp_vars_eq)

subsection \<open>The \<^verbatim>\<open>info\<close> property\<close>

lemma mangle_cached_info:
  "mangle ''BaseInstaseisDB'' ''__cached_info'' = ''_BaseInstaseisDB__cached_info''"
  by (simp add: mangle_def)

lemma info_uncached:
  assumes "\<not> hasattr self ''__cached_info''"
  shows "get_info_calls (snd (info g self)) = get_info_calls self + 1"
    and "\<not> hasattr (snd (info g self)) ''__cached_info''"
    and "fst (info g self) = Inr (g self)"
  using assms
  by (simp_all add: info_def Let_def call_get_info_def setattr_def getattr_def hasattr_def
      mangle_cached_info AttribDict_def)

lemma info_reads_calls:
  "\<not> hasattr self ''__cached_info'' \<Longrightarrow>
   get_info_calls (info_reads g n self) = get_info_calls self + n"
  by (induction n arbitrary: self) (simp_all add: info_uncached)

subsection \<open>The sample database, evaluated\<close>

lemma knn_query_sorted:
  "sorted (map (\<lambda>i. sq_dist (pts ! i) p) (snd (knn_query pts p k)))"
proof -
  let ?d = "\<lambda>i. sq_dist (pts ! i) p"
  have "sorted (map ?d (sort_key ?d [0..<length pts]))"
    by (rule sorted_sort_key)
  then have "sorted (take k (map ?d (sort_key ?d [0..<length pts])))"
    by (rule sorted_wrt_take)
  then show ?thesis
    by (simp add: knn_query_def Let_def take_map)
qed

lemma ex_rotmesh: "rotmesh ex_modules (ex_source x z) ex_receiver = (\<bar>x\<bar>, 0, z)"
  by (simp add: rotmesh_def ex_modules_def ex_source_def ex_receiver_def)

lemma ex_ref_points:
  "map (\<lambda>e. ex_node (4 * e)) [0..<7] =
     [(10, 10), (11, 10), (12, 10), (13, 10), (14, 10), (15, 10), (0, 0)]"
  by (simp add: ex_node_def upt_rec)

lemma ex_candidates:
  "candidates ex_modules (ex_db dt) (ex_source x z) ex_receiver =
     snd (knn_query [(10, 10), (11, 10), (12, 10), (13, 10), (14, 10), (15, 10), (0, 0)] [\<bar>x\<bar>, z] 6)"
  by (simp add: candidates_def ex_rotmesh ex_db_def ex_Mesh_def ex_ref_points)

lemma ex_candidates_9_9:
  "candidates ex_modules (ex_db dt) (ex_source 9 9) ex_receiver = [0, 1, 2, 3, 4, 5]"
  unfolding ex_candidates by (simp add: knn_query_def sq_dist_def upt_rec power2_eq_square)

lemma ex_candidates_1_1:
  "candidates ex_modules (ex_db dt) (ex_source 1 1) ex_receiver = [6, 0, 1, 2, 3, 4]"
  unfolding ex_candidates by (simp add: knn_query_def sq_dist_def upt_rec power2_eq_square)

lemma ex_candidates_109_105:
  "candidates ex_modules (ex_db dt) (ex_source (109 / 10) (21 / 2)) ex_receiver = [1, 0, 2, 3, 4, 5]"
  unfolding ex_candidates by (simp add: knn_query_def sq_dist_def upt_rec power2_eq_square)

lemma ex_corner_points:
  "corner_points_of ex_mesh_group 0 = [(10, 10), (11, 10), (11, 11), (10, 11)]"
  "corner_points_of ex_mesh_group (Suc 0) = [(11, 10), (12, 10), (12, 11), (11, 11)]"
  "corner_points_of ex_mesh_group 2 = [(12, 10), (13, 10), (13, 11), (12, 11)]"
  "corner_points_of ex_mesh_group 3 = [(13, 10), (14, 10), (14, 11), (13, 11)]"
  "corner_points_of ex_mesh_group 4 = [(14, 10), (15, 10), (15, 11), (14, 11)]"
  "corner_points_of ex_mesh_group 5 = [(15, 10), (16, 10), (16, 11), (15, 11)]"
  "corner_points_of ex_mesh_group 6 = [(0, 0), (10, 0), (10, 10), (0, 10)]"
  by (simp_all add: corner_points_of_def ex_mesh_group_def ex_node_def)

lemma ex_inside_result:
  "inside_result ex_modules (ex_db dt) (ex_source x z) ex_receiver e =
     rect_inside \<bar>x\<bar> z (corner_points_of ex_mesh_group e) 0 (1 / 1000)"
  unfolding inside_result_def ex_rotmesh
  by (simp add: element_test_def ex_db_def ex_modules_def ex_mesh_group_def)

lemma ex_not_inside_9_9:
  "\<forall>e\<in>set [0, 1, 2, 3, 4, 5].
     \<not> fst (inside_result ex_modules (ex_db dt) (ex_source 9 9) ex_receiver e)"
  by (simp add: ex_inside_result ex_corner_points rect_inside_def)

lemma ex_inside_9_9:
  "inside_result ex_modules (ex_db dt) (ex_source 9 9) ex_receiver 6 = (True, 4 / 5, 4 / 5)"
  by (simp add: ex_inside_result ex_corner_points rect_inside_def)

lemma ex_inside_1_1:
  "inside_result ex_modules (ex_db dt) (ex_source 1 1) ex_receiver 6 = (True, - 4 / 5, - 4 / 5)"
  by (simp add: ex_inside_result ex_corner_points rect_inside_def)

lemma ex_inside_109_105:
  "inside_result ex_modules (ex_db dt) (ex_source (109 / 10) (21 / 2)) ex_receiver 0 = (True, 4 / 5, 0)"
  "\<not> fst (inside_result ex_modules (ex_db dt) (ex_source (109 / 10) (21 / 2)) ex_receiver 1)"
  by (simp_all add: ex_inside_result ex_corner_points rect_inside_def)

lemma ex_files_px_Mesh: "files_px_Mesh (ex_db dt) = ex_mesh_group"
  by (simp add: ex_db_def)

lemma ex_eltype: "eltype ex_mesh_group e = 0"
  by (simp add: ex_mesh_group_def)

lemma ex_locate_9_9:
  "locate ex_modules (ex_db dt) (ex_source 9 9) ex_receiver = Inl (ValueError ''Element not found'')"
proof (rule locate_none)
  show "\<forall>i\<in>set (candidates ex_modules (ex_db dt) (ex_source 9 9) ex_receiver).
          \<not> fst (inside_result ex_modules (ex_db dt) (ex_source 9 9) ex_receiver i)"
    unfolding ex_candidates_9_9 by (rule ex_not_inside_9_9)
qed

lemma ex_locate_1_1:
  "locate ex_modules (ex_db dt) (ex_source 1 1) ex_receiver =
     Inr (6, [(0, 0), (10, 0), (10, 10), (0, 10)], 0, - 4 / 5, - 4 / 5)"
proof -
  have c: "candidates ex_modules (ex_db dt) (ex_source 1 1) ex_receiver = [] @ 6 # [0, 1, 2, 3, 4]"
    by (simp add: ex_candidates_1_1)
  have "locate ex_modules (ex_db dt) (ex_source 1 1) ex_receiver =
          Inr (6, corner_points_of (files_px_Mesh (ex_db dt)) 6, eltype (files_px_Mesh (ex_db dt)) 6,
               - 4 / 5, - 4 / 5)"
    by (rule locate_first[OF c _ ex_inside_1_1]) simp
  then show ?thesis
    by (simp add: ex_files_px_Mesh ex_eltype ex_corner_points)
qed

lemma ex_locate_109_105:
  "locate ex_modules (ex_db dt) (ex_source (109 / 10) (21 / 2)) ex_receiver =
     Inr (0, [(10, 10), (11, 10), (11, 11), (10, 11)], 0, 4 / 5, 0)"
proof -
  have c: "candidates ex_modules (ex_db dt) (ex_source (109 / 10) (21 / 2)) ex_receiver =
      [1] @ 0 # [2, 3, 4, 5]"
    by (simp add: ex_candidates_109_105)
  have n: "\<forall>i\<in>set [1].
      \<not> fst (inside_result ex_modules (ex_db dt) (ex_source (109 / 10) (21 / 2)) ex_receiver i)"
    using ex_inside_109_105(2)[of dt] by simp
  have "locate ex_modules (ex_db dt) (ex_source (109 / 10) (21 / 2)) ex_receiver =
          Inr (0, corner_points_of (files_px_Mesh (ex_db dt)) 0, eltype (files_px_Mesh (ex_db dt)) 0,
               4 / 5, 0)"
    by (rule locate_first[OF c n ex_inside_109_105(1)])
  then show ?thesis
    by (simp add: ex_files_px_Mesh ex_eltype ex_corner_points)
qed

lemma ex_strip:
  "strip ''displ_only'' = ''displ_only''"
  "strip ''displ_only  '' = ''displ_only''"
  "strip ''fullfields'' \<noteq> ''displ_only''"
  by (simp_all add: strip_def is_space_def)

lemma ex_kern: "strain_fct_map ex_modules (excitation_type (ex_Mesh dt)) = Some (ex_kernel 1)"
  by (simp add: strain_fct_map_def ex_Mesh_def ex_modules_def)

lemma ex_load_6:
  "load_displacement (ex_Mesh dt) (sem_mesh ex_mesh_group 6) =
     [[[[24, 0, 0], [26, 0, 0]], [[25, 0, 0], [27, 0, 0]]],
      [[[25, 0, 10], [27, 0, 10]], [[26, 0, 10], [28, 0, 10]]]]"
  by (simp add: load_displacement_def ex_Mesh_def ex_mesh_group_def zeros_def disp_vars_def
      enumerate_eq_zip upt_rec start_chunk_of_def assign_column_def read_column_def numeral_eq_Suc)

lemma ex_rotate_moment:
  "rotate_moment ex_modules (ex_source x z) ex_receiver phi 2 = Voigt 3 (1 / 2) (3 / 2) 2 (5 / 2) 3"
  by (simp add: rotate_moment_def ex_modules_def ex_source_def voigt_div_def)

lemma ex_contract_6:
  "contract
     (interpolate_strain ex_modules [- 1, 1] [- 1, 1]
        (strain_td (ex_kernel 1)
           [[[[24, 0, 0], [26, 0, 0]], [[25, 0, 0], [27, 0, 0]]],
            [[[25, 0, 10], [27, 0, 10]], [[26, 0, 10], [28, 0, 10]]]]
           [[1, 2], [3, 4]] [[5, 6], [7, 8]] [- 1, 1] [- 1, 1] 1 2
           [(0, 0), (10, 0), (10, 10), (0, 10)] 0 True)
        (- 4 / 5) (- 4 / 5))
     (Voigt 3 (1 / 2) (3 / 2) 2 (5 / 2) 3) 1 3 =
   [1377 / 2, 1817 / 2]"
  by (simp add: contract_def interpolate_strain_def strain_td_def ex_kernel_def ex_modules_def
     lagrange_interpol_2D_td_def strain_component_def tensor_interpol_def lagrange_basis_def
     set_column_def scale_column_def column_def add_to_def upt_rec numeral_eq_Suc)

lemma ex_get_seismogram_1_1:
  assumes "strip dt = ''displ_only''"
  shows "get_seismogram ex_modules (ex_db dt) (ex_source 1 1) ex_receiver ''N'' =
           Inr (Some [1377 / 2, 1817 / 2])"
proof -
  have loc: "locate ex_modules (ex_db dt) (ex_source 1 1) ex_receiver =
     Inr (6, [(0, 0), (10, 0), (10, 10), (0, 10)], 0, - 4 / 5, - 4 / 5)"
    by (rule ex_locate_1_1)
  have st: "strip (dump_type (meshes_px (ex_db dt))) = ''displ_only''"
    using assms by (simp add: ex_db_def ex_Mesh_def)
  have kn: "strain_fct_map ex_modules (excitation_type (meshes_px (ex_db dt))) = Some (ex_kernel 1)"
    using ex_kern[of dt] by (simp add: ex_db_def)
  have sb: "select_basis (meshes_px (ex_db dt)) (axis (files_px_Mesh (ex_db dt)) 6 \<noteq> 0) =
      ([[1, 2], [3, 4]], [[5, 6], [7, 8]], [- 1, 1], [- 1, 1])"
    by (simp add: select_basis_def ex_db_def ex_Mesh_def ex_mesh_group_def)
  have ld: "load_displacement (meshes_px (ex_db dt)) (sem_mesh (files_px_Mesh (ex_db dt)) 6) =
     [[[[24, 0, 0], [26, 0, 0]], [[25, 0, 0], [27, 0, 0]]],
      [[[25, 0, 10], [27, 0, 10]], [[26, 0, 10], [28, 0, 10]]]]"
    using ex_load_6[of dt] by (simp add: ex_db_def)
  have misc: "npol (meshes_px (ex_db dt)) = 1" "ndumps (meshes_px (ex_db dt)) = 2"
    "amplitude (meshes_px (ex_db dt)) = 2" "axis (files_px_Mesh (ex_db dt)) 6 \<noteq> 0"
    "azim_factor_bw ex_modules phi [0, 1, 0] 2 1 = 1"
    "azim_factor_bw ex_modules phi [0, 1, 0] 2 2 = 3" for phi
    by (simp_all add: ex_db_def ex_Mesh_def ex_mesh_group_def ex_modules_def)
  show ?thesis
    unfolding get_seismogram_N_supported[OF loc st kn sb] ld misc ex_rotate_moment
    using ex_contract_6 misc(4) by simp
qed

lemma ex_load_0:
  "load_displacement (ex_Mesh dt) (sem_mesh ex_mesh_group 0) =
     [[[[0, 0, 0], [2, 0, 0]], [[1, 0, 0], [3, 0, 0]]],
      [[[1, 0, 10], [3, 0, 10]], [[2, 0, 10], [4, 0, 10]]]]"
  by (simp add: load_displacement_def ex_Mesh_def ex_mesh_group_def zeros_def disp_vars_def
      enumerate_eq_zip upt_rec start_chunk_of_def assign_column_def read_column_def numeral_eq_Suc)

lemma ex_contract_0:
  "contract
     (interpolate_strain ex_modules [- 1, 1] [- 1, 1]
        (strain_td (ex_kernel 1)
           [[[[0, 0, 0], [2, 0, 0]], [[1, 0, 0], [3, 0, 0]]],
            [[[1, 0, 10], [3, 0, 10]], [[2, 0, 10], [4, 0, 10]]]]
           [[1, 2], [3, 4]] [[1, 3], [2, 4]] [- 1, 1] [- 1, 1] 1 2
           [(10, 10), (11, 10), (11, 11), (10, 11)] 0 False)
        (4 / 5) 0)
     (Voigt 3 (1 / 2) (3 / 2) 2 (5 / 2) 3) 1 3 =
   [337 / 2, 777 / 2]"
  by (simp add: contract_def interpolate_strain_def strain_td_def ex_kernel_def ex_modules_def
     lagrange_interpol_2D_td_def strain_component_def tensor_interpol_def lagrange_basis_def
     set_column_def scale_column_def column_def add_to_def upt_rec numeral_eq_Suc)

lemma ex_db_fields:
  "strip (dump_type (meshes_px (ex_db dt))) = strip dt"
  "strain_fct_map ex_modules (excitation_type (meshes_px (ex_db dt))) = Some (ex_kernel 1)"
  "npol (meshes_px (ex_db dt)) = 1"
  "ndumps (meshes_px (ex_db dt)) = 2"
  "amplitude (meshes_px (ex_db dt)) = 2"
  "axis (files_px_Mesh (ex_db dt)) 6 \<noteq> 0"
  "axis (files_px_Mesh (ex_db dt)) 0 = 0"
  "G2 (meshes_px (ex_db dt)) = [[1, 2], [3, 4]]"
  "G1T (meshes_px (ex_db dt)) = [[5, 6], [7, 8]]"
  "G2T (meshes_px (ex_db dt)) = [[1, 3], [2, 4]]"
  "glj_points (meshes_px (ex_db dt)) = [- 1, 1]"
  "gll_points (meshes_px (ex_db dt)) = [- 1, 1]"
  "load_displacement (meshes_px (ex_db dt)) (sem_mesh (files_px_Mesh (ex_db dt)) e) =
     load_displacement (ex_Mesh dt) (sem_mesh ex_mesh_group e)"
  "azim_factor_bw ex_modules phi [0, 1, 0] 2 1 = 1"
  "azim_factor_bw ex_modules phi [0, 1, 0] 2 2 = 3"
  by (simp_all add: ex_db_def ex_Mesh_def ex_mesh_group_def ex_modules_def strain_fct_map_def)

lemma ex_get_seismogram_109_105:
  assumes "strip dt = ''displ_only''"
  shows "get_seismogram ex_modules (ex_db dt) (ex_source (109 / 10) (21 / 2)) ex_receiver ''N'' =
           Inr (Some [337 / 2, 777 / 2])"
proof -
  have st: "strip (dump_type (meshes_px (ex_db dt))) = ''displ_only''"
    using assms by (simp add: ex_db_fields)
  have sb: "select_basis (meshes_px (ex_db dt)) (axis (files_px_Mesh (ex_db dt)) 0 \<noteq> 0) =
      ([[1, 2], [3, 4]], [[1, 3], [2, 4]], [- 1, 1], [- 1, 1])"
    by (simp add: select_basis_def ex_db_fields)
  show ?thesis
    unfolding get_seismogram_N_supported[OF ex_locate_109_105 st ex_db_fields(2) sb]
      ex_db_fields ex_load_0 ex_rotate_moment
    using ex_contract_0 by simp
qed

lemma ex_azim: "azim_factor_bw ex_modules phi v n k = (if k = 1 then 1 else 3)"
  by (simp add: ex_modules_def)

section \<open>The claims\<close>

text \<open>
  C1. The element search tests the candidates in the order in which the spatial index
  returns them and stops at the first one for which the inverse mapping reports
  containment within the tolerance; the data of that element are the result of the
  search. If none of the candidates contains the rotated point, \<^verbatim>\<open>get_seismogram\<close>
  raises \<^verbatim>\<open>ValueError("Element not found")\<close>, whatever the component, and returns no
  interpolation result. With the nearest-neighbour index the order of the candidates is
  by increasing distance of the reference vertex from the rotated point.
\<close>

theorem element_search_first_accepted:
  "(\<forall>pre idx post xi eta.
      candidates md self source receiver = pre @ idx # post \<and>
      (\<forall>i\<in>set pre. \<not> fst (inside_result md self source receiver i)) \<and>
      inside_result md self source receiver idx = (True, xi, eta) \<longrightarrow>
      locate md self source receiver =
        Inr (idx, corner_points_of (files_px_Mesh self) idx, eltype (files_px_Mesh self) idx,
             xi, eta)) \<and>
   ((\<forall>i\<in>set (candidates md self source receiver).
       \<not> fst (inside_result md self source receiver i)) \<longrightarrow>
    (\<forall>component.
       get_seismogram md self source receiver component =
         Inl (ValueError ''Element not found''))) \<and>
   (kdtree (meshes_px self) = knn_query pts \<longrightarrow>
    sorted (map (\<lambda>i. sq_dist (pts ! i)
                        [fst (rotmesh md source receiver), snd (snd (rotmesh md source receiver))])
              (candidates md self source receiver)))"
proof (intro conjI allI impI)
  assume "kdtree (meshes_px self) = knn_query pts"
  then show "sorted (map (\<lambda>i. sq_dist (pts ! i)
                        [fst (rotmesh md source receiver), snd (snd (rotmesh md source receiver))])
              (candidates md self source receiver))"
    by (simp add: candidates_def knn_query_sorted split: prod.splits)
next
  fix pre idx post xi eta
  assume "candidates md self source receiver = pre @ idx # post \<and>
      (\<forall>i\<in>set pre. \<not> fst (inside_result md self source receiver i)) \<and>
      inside_result md self source receiver idx = (True, xi, eta)"
  then show "locate md self source receiver =
        Inr (idx, corner_points_of (files_px_Mesh self) idx, eltype (files_px_Mesh self) idx,
             xi, eta)"
    by (simp add: locate_first)
next
  fix component
  assume "\<forall>i\<in>set (candidates md self source receiver).
       \<not> fst (inside_result md self source receiver i)"
  then have "locate md self source receiver = Inl (ValueError ''Element not found'')"
    by (rule locate_none)
  then show "get_seismogram md self source receiver component =
         Inl (ValueError ''Element not found'')"
    by (rule get_seismogram_not_located)
qed

theorem element_search_first_accepted_witness:
  "candidates ex_modules (ex_db ''displ_only'') (ex_source (109 / 10) (21 / 2)) ex_receiver =
     [1, 0, 2, 3, 4, 5] \<and>
   locate ex_modules (ex_db ''displ_only'') (ex_source (109 / 10) (21 / 2)) ex_receiver =
     Inr (0, [(10, 10), (11, 10), (11, 11), (10, 11)], 0, 4 / 5, 0) \<and>
   candidates ex_modules (ex_db ''displ_only'') (ex_source 9 9) ex_receiver = [0, 1, 2, 3, 4, 5] \<and>
   get_seismogram ex_modules (ex_db ''displ_only'') (ex_source 9 9) ex_receiver ''N'' =
     Inl (ValueError ''Element not found'') \<and>
   sorted (map (\<lambda>i. sq_dist (map (\<lambda>e. ex_node (4 * e)) [0..<7] ! i) [9, 9]) [0, 1, 2, 3, 4, 5])"
proof -
  let ?db = "ex_db ''displ_only''"
  let ?near = "ex_source (109 / 10) (21 / 2)"
  let ?far = "ex_source 9 9"
  have k: "kdtree (meshes_px ?db) = knn_query (map (\<lambda>e. ex_node (4 * e)) [0..<7])"
    by (simp add: ex_db_def ex_Mesh_def)
  have c3: "sorted (map (\<lambda>i. sq_dist (map (\<lambda>e. ex_node (4 * e)) [0..<7] ! i) [9, 9])
      [0, 1, 2, 3, 4, 5])"
    using element_search_first_accepted[of ex_modules ?db ?far ex_receiver
        "map (\<lambda>e. ex_node (4 * e)) [0..<7]"] k
    unfolding ex_candidates_9_9 ex_rotmesh by simp
  have h1: "candidates ex_modules ?db ?near ex_receiver = [1] @ 0 # [2, 3, 4, 5] \<and>
      (\<forall>i\<in>set [1]. \<not> fst (inside_result ex_modules ?db ?near ex_receiver i)) \<and>
      inside_result ex_modules ?db ?near ex_receiver 0 = (True, 4 / 5, 0)"
    using ex_inside_109_105[of "''displ_only''"] by (simp add: ex_candidates_109_105)
  have "locate ex_modules ?db ?near ex_receiver =
      Inr (0, corner_points_of (files_px_Mesh ?db) 0, eltype (files_px_Mesh ?db) 0, 4 / 5, 0)"
    using element_search_first_accepted[of ex_modules ?db ?near ex_receiver] h1 by blast
  then have c1: "locate ex_modules ?db ?near ex_receiver =
      Inr (0, [(10, 10), (11, 10), (11, 11), (10, 11)], 0, 4 / 5, 0)"
    by (simp add: ex_files_px_Mesh ex_eltype ex_corner_points)
  have h2: "\<forall>i\<in>set (candidates ex_modules ?db ?far ex_receiver).
      \<not> fst (inside_result ex_modules ?db ?far ex_receiver i)"
    unfolding ex_candidates_9_9 by (rule ex_not_inside_9_9)
  have c2: "get_seismogram ex_modules ?db ?far ex_receiver ''N'' =
      Inl (ValueError ''Element not found'')"
    using element_search_first_accepted[of ex_modules ?db ?far ex_receiver] h2 by blast
  show ?thesis
    using c1 c2 c3 by (simp add: ex_candidates_109_105 ex_candidates_9_9)
qed

text \<open>
  C2. The trace is, sample by sample, minus the sum over the six Voigt components of the
  interpolated strain times the rotated moment times the multiplicity (1, 1, 1, 2, 2, 2)
  times the azimuth factor (\<open>fac_1\<close> for the components 0, 1, 2, 4 and \<open>fac_2\<close> for 3
  and 5), the interpolated strain components 3 and 5 having their sign changed first.
  This holds for the lines 126--156 on any strain field, and for the trace that
  \<^verbatim>\<open>get_seismogram\<close> returns, which has one sample for each of the \<open>ndumps\<close> time samples.
\<close>

theorem contraction_formula:
  "contract (interpolate_strain md cxi ceta strain xi eta) mij fac_1 fac_2 =
     map (\<lambda>s. - (interpolated md cxi ceta xi eta s 0 * m0 mij * 1 * fac_1
                + interpolated md cxi ceta xi eta s 1 * m1 mij * 1 * fac_1
                + interpolated md cxi ceta xi eta s 2 * m2 mij * 1 * fac_1
                + (- interpolated md cxi ceta xi eta s 3) * m3 mij * 2 * fac_2
                + interpolated md cxi ceta xi eta s 4 * m4 mij * 2 * fac_1
                + (- interpolated md cxi ceta xi eta s 5) * m5 mij * 2 * fac_2)) strain \<and>
   (locate md self source receiver = Inr (id_elem, cp, et, xi', eta') \<and>
    strip (dump_type (meshes_px self)) = ''displ_only'' \<and>
    strain_fct_map md (excitation_type (meshes_px self)) = Some kern \<and>
    select_basis (meshes_px self) (axis (files_px_Mesh self) id_elem \<noteq> 0) =
      (G, GT, col_points_xi, col_points_eta) \<longrightarrow>
    (let mesh = meshes_px self;
         phi = fst (snd (rotmesh md source receiver));
         strain' = strain_td kern
                     (load_displacement mesh (sem_mesh (files_px_Mesh self) id_elem))
                     G GT col_points_xi col_points_eta (npol mesh) (ndumps mesh) cp et
                     (axis (files_px_Mesh self) id_elem \<noteq> 0);
         e = interpolated md col_points_xi col_points_eta xi' eta';
         m = rotate_moment md source receiver phi (amplitude mesh);
         f1 = azim_factor_bw md phi [0, 1, 0] 2 1;
         f2 = azim_factor_bw md phi [0, 1, 0] 2 2
     in length strain' = ndumps mesh \<and>
        get_seismogram md self source receiver ''N'' =
          Inr (Some (map (\<lambda>s. - (e s 0 * m0 m * 1 * f1 + e s 1 * m1 m * 1 * f1
                                  + e s 2 * m2 m * 1 * f1 + (- e s 3) * m3 m * 2 * f2
                                  + e s 4 * m4 m * 2 * f1 + (- e s 5) * m5 m * 2 * f2))
                       strain'))))"
proof (intro conjI impI)
  show "contract (interpolate_strain md cxi ceta strain xi eta) mij fac_1 fac_2 =
     map (\<lambda>s. - (interpolated md cxi ceta xi eta s 0 * m0 mij * 1 * fac_1
                + interpolated md cxi ceta xi eta s 1 * m1 mij * 1 * fac_1
                + interpolated md cxi ceta xi eta s 2 * m2 mij * 1 * fac_1
                + (- interpolated md cxi ceta xi eta s 3) * m3 mij * 2 * fac_2
                + interpolated md cxi ceta xi eta s 4 * m4 mij * 2 * fac_1
                + (- interpolated md cxi ceta xi eta s 5) * m5 mij * 2 * fac_2)) strain"
    by (rule contract_interpolate)
next
  assume "locate md self source receiver = Inr (id_elem, cp, et, xi', eta') \<and>
    strip (dump_type (meshes_px self)) = ''displ_only'' \<and>
    strain_fct_map md (excitation_type (meshes_px self)) = Some kern \<and>
    select_basis (meshes_px self) (axis (files_px_Mesh self) id_elem \<noteq> 0) =
      (G, GT, col_points_xi, col_points_eta)"
  then have h: "locate md self source receiver = Inr (id_elem, cp, et, xi', eta')"
    "strip (dump_type (meshes_px self)) = ''displ_only''"
    "strain_fct_map md (excitation_type (meshes_px self)) = Some kern"
    "select_basis (meshes_px self) (axis (files_px_Mesh self) id_elem \<noteq> 0) =
      (G, GT, col_points_xi, col_points_eta)"
    by simp_all
  show "let mesh = meshes_px self;
         phi = fst (snd (rotmesh md source receiver));
         strain' = strain_td kern
                     (load_displacement mesh (sem_mesh (files_px_Mesh self) id_elem))
                     G GT col_points_xi col_points_eta (npol mesh) (ndumps mesh) cp et
                     (axis (files_px_Mesh self) id_elem \<noteq> 0);
         e = interpolated md col_points_xi col_points_eta xi' eta';
         m = rotate_moment md source receiver phi (amplitude mesh);
         f1 = azim_factor_bw md phi [0, 1, 0] 2 1;
         f2 = azim_factor_bw md phi [0, 1, 0] 2 2
     in length strain' = ndumps mesh \<and>
        get_seismogram md self source receiver ''N'' =
          Inr (Some (map (\<lambda>s. - (e s 0 * m0 m * 1 * f1 + e s 1 * m1 m * 1 * f1
                                  + e s 2 * m2 m * 1 * f1 + (- e s 3) * m3 m * 2 * f2
                                  + e s 4 * m4 m * 2 * f1 + (- e s 5) * m5 m * 2 * f2))
                       strain'))"
    unfolding Let_def get_seismogram_N_supported[OF h] contract_interpolate
    by (simp add: length_strain_td length_load_displacement)
qed

theorem contraction_formula_witness:
  "contract (interpolate_strain ex_modules [- 1, 1] [- 1, 1]
       [\<lambda>i. [[real i, real i], [real i, real i]]] 0 0) (Voigt 1 1 1 1 1 1) 1 1 =
     [- (0 * 1 * 1 * 1 + 1 * 1 * 1 * 1 + 2 * 1 * 1 * 1 + (- 3) * 1 * 2 * 1 + 4 * 1 * 2 * 1
         + (- 5) * 1 * 2 * 1)] \<and>
   get_seismogram ex_modules (ex_db ''displ_only'') (ex_source 1 1) ex_receiver ''N'' =
     Inr (Some [1377 / 2, 1817 / 2])"
proof -
  let ?db = "ex_db ''displ_only''"
  have i: "interpolated ex_modules [- 1, 1] [- 1, 1] xi eta s i =
      tensor_interpol [- 1, 1] [- 1, 1] (s i) xi eta" for xi eta s i
    by (simp add: interpolated_def ex_modules_def)
  have "contract (interpolate_strain ex_modules [- 1, 1] [- 1, 1]
       [\<lambda>i. [[real i, real i], [real i, real i]]] 0 0) (Voigt 1 1 1 1 1 1) 1 1 =
     [- (0 * 1 * 1 * 1 + 1 * 1 * 1 * 1 + 2 * 1 * 1 * 1 + (- 3) * 1 * 2 * 1 + 4 * 1 * 2 * 1
         + (- 5) * 1 * 2 * 1)]"
    unfolding contraction_formula[THEN conjunct1] i
    by (simp add: tensor_interpol_def lagrange_basis_def upt_rec)
  moreover
  have h: "locate ex_modules ?db (ex_source 1 1) ex_receiver =
        Inr (6, [(0, 0), (10, 0), (10, 10), (0, 10)], 0, - 4 / 5, - 4 / 5) \<and>
    strip (dump_type (meshes_px ?db)) = ''displ_only'' \<and>
    strain_fct_map ex_modules (excitation_type (meshes_px ?db)) = Some (ex_kernel 1) \<and>
    select_basis (meshes_px ?db) (axis (files_px_Mesh ?db) 6 \<noteq> 0) =
      ([[1, 2], [3, 4]], [[5, 6], [7, 8]], [- 1, 1], [- 1, 1])"
    using ex_locate_1_1[of "''displ_only''"]
    by (simp add: ex_db_fields ex_strip select_basis_def)
  have "get_seismogram ex_modules ?db (ex_source 1 1) ex_receiver ''N'' =
     Inr (Some [1377 / 2, 1817 / 2])"
    using contraction_formula[of ex_modules _ _ _ _ _ _ _ _ ?db "ex_source 1 1" ex_receiver
        6 "[(0, 0), (10, 0), (10, 10), (0, 10)]" 0 "- 4 / 5" "- 4 / 5" "ex_kernel 1"
        "[[1, 2], [3, 4]]" "[[5, 6], [7, 8]]" "[- 1, 1]" "[- 1, 1]", THEN conjunct2] h
    unfolding i
    by (simp add: Let_def ex_db_fields ex_load_6 ex_rotate_moment ex_azim strain_td_def
        ex_kernel_def tensor_interpol_def lagrange_basis_def upt_rec)
  ultimately show ?thesis by simp
qed

text \<open>
  C3. Claimed: every query returns a complete time series or raises an error, never a
  null result. The body of \<^verbatim>\<open>get_seismogram\<close> is one \<^verbatim>\<open>if component == "N":\<close> without an
  \<^verbatim>\<open>else\<close>: for any other component the function falls off its end once the element
  is found, and returns \<^verbatim>\<open>None\<close> (lemma \<open>get_seismogram_other_component\<close>). Here it is
  evaluated for the component \<^verbatim>\<open>"Z"\<close> on the sample database.
\<close>

theorem other_component_returns_None:
  "get_seismogram ex_modules (ex_db ''displ_only'') (ex_source 1 1) ex_receiver ''Z'' = Inr None"
  by (rule get_seismogram_other_component[OF ex_locate_1_1]) simp

text \<open>
  C4. Claimed: every query against a database whose dump type is not \<^verbatim>\<open>displ_only\<close> fails
  with the unsupported-capability error. The program searches the element before it looks
  at the dump type, so a point outside the candidates is answered with
  \<^verbatim>\<open>ValueError("Element not found")\<close> on such a database; and it compares the stripped
  string, so a dump type padded with blanks, which is not the string \<^verbatim>\<open>displ_only\<close>, is
  served.
\<close>

theorem dump_type_guard_counterexample:
  "dump_type (meshes_px (ex_db ''fullfields'')) \<noteq> ''displ_only'' \<and>
   get_seismogram ex_modules (ex_db ''fullfields'') (ex_source 9 9) ex_receiver ''N'' =
     Inl (ValueError ''Element not found'') \<and>
   dump_type (meshes_px (ex_db ''displ_only  '')) \<noteq> ''displ_only'' \<and>
   get_seismogram ex_modules (ex_db ''displ_only  '') (ex_source 1 1) ex_receiver ''N'' =
     Inr (Some [1377 / 2, 1817 / 2])"
  using get_seismogram_not_located[OF ex_locate_9_9, of "''fullfields''" "''N''"]
    ex_get_seismogram_1_1[OF ex_strip(2)]
  by (simp add: ex_db_def ex_Mesh_def)

text \<open>
  C4, amended. For the component \<^verbatim>\<open>"N"\<close> and a database whose dump type, stripped of
  surrounding whitespace, is not \<^verbatim>\<open>displ_only\<close>: \<^verbatim>\<open>get_seismogram\<close> raises
  \<^verbatim>\<open>ValueError("Element not found")\<close> if none of the candidates contains the point and
  \<^verbatim>\<open>NotImplementedError\<close> otherwise; and the strain kernels and the interpolation are not
  run: replacing them by any others leaves the outcome as it is.
\<close>

theorem dump_type_guard:
  assumes "strip (dump_type (meshes_px self)) \<noteq> ''displ_only''"
  shows "get_seismogram md self source receiver ''N'' =
           (if \<forall>i\<in>set (candidates md self source receiver).
                 \<not> fst (inside_result md self source receiver i)
            then Inl (ValueError ''Element not found'')
            else Inl NotImplementedError) \<and>
         get_seismogram
           (md\<lparr>strain_monopole := k1, strain_dipole := k2, strain_quadpole := k3,
               lagrange_interpol_2D := f\<rparr>) self source receiver ''N'' =
           get_seismogram md self source receiver ''N''"
proof -
  let ?md = "md\<lparr>strain_monopole := k1, strain_dipole := k2, strain_quadpole := k3,
               lagrange_interpol_2D := f\<rparr>"
  have outcome: "get_seismogram m self source receiver ''N'' =
           (if \<forall>i\<in>set (candidates m self source receiver).
                 \<not> fst (inside_result m self source receiver i)
            then Inl (ValueError ''Element not found'')
            else Inl NotImplementedError)" for m
  proof (cases "locate m self source receiver")
    case (Inl e)
    then have e: "e = ValueError ''Element not found''" by (rule locate_Inl)
    have "\<forall>i\<in>set (candidates m self source receiver).
                 \<not> fst (inside_result m self source receiver i)"
      using Inl by (rule locate_Inl_none)
    then show ?thesis
      using get_seismogram_not_located[OF Inl] e by simp
  next
    case (Inr r)
    obtain idx cp et xi eta where r: "r = (idx, cp, et, xi, eta)" by (cases r)
    from locate_Inr[OF Inr[unfolded r]]
    have "\<not> (\<forall>i\<in>set (candidates m self source receiver).
                 \<not> fst (inside_result m self source receiver i))"
      by auto
    then show ?thesis
      using get_seismogram_N_unsupported[OF Inr assms] by simp
  qed
  have same: "inside_result ?md self source receiver = inside_result md self source receiver"
    "candidates ?md self source receiver = candidates md self source receiver"
    by (simp_all add: fun_eq_iff inside_result_def candidates_def rotmesh_def element_test_def)
  show ?thesis
    unfolding outcome[of ?md] same by (simp add: outcome[of md])
qed

theorem dump_type_guard_witness:
  "strip (dump_type (meshes_px (ex_db ''fullfields''))) \<noteq> ''displ_only'' \<and>
   get_seismogram ex_modules (ex_db ''fullfields'') (ex_source 1 1) ex_receiver ''N'' =
     Inl NotImplementedError"
proof -
  let ?db = "ex_db ''fullfields''"
  have h: "strip (dump_type (meshes_px ?db)) \<noteq> ''displ_only''"
    using ex_strip(3) by (simp add: ex_db_fields)
  have "\<not> (\<forall>i\<in>set (candidates ex_modules ?db (ex_source 1 1) ex_receiver).
                 \<not> fst (inside_result ex_modules ?db (ex_source 1 1) ex_receiver i))"
    by (simp add: ex_candidates_1_1 ex_inside_1_1)
  then have "get_seismogram ex_modules ?db (ex_source 1 1) ex_receiver ''N'' =
     Inl NotImplementedError"
    using dump_type_guard[OF h, of ex_modules "ex_source 1 1" ex_receiver] by simp
  with h show ?thesis by simp
qed

text \<open>
  C5. The moment tensor goes through three rotations in this order: source frame to earth
  frame (by the source's longitude and colatitude in radians), earth frame to the
  receiver's source frame (by the receiver's longitude and colatitude in radians), then
  to the azimuth frame of the mesh (by the angle \<open>phi\<close> of the frame rotation); the result
  is divided, component by component, by the amplitude of the database, and that tensor is
  the one contracted with the strain.
\<close>

theorem moment_rotated_then_normalised:
  "rotate_moment md source receiver phi ampl =
     voigt_div
       (rotate_symm_tensor_voigt_xyz_to_src_1d md
          (rotate_symm_tensor_voigt_xyz_earth_to_xyz_src_1d md
             (rotate_symm_tensor_voigt_xyz_src_to_xyz_earth_1d md (src_tensor_voigt source)
                (deg2rad (src_longitude source)) (deg2rad (src_colatitude source)))
             (deg2rad (rcv_longitude receiver)) (deg2rad (rcv_colatitude receiver)))
          phi)
       ampl \<and>
   (locate md self source receiver = Inr (id_elem, cp, et, xi, eta) \<and>
    strip (dump_type (meshes_px self)) = ''displ_only'' \<and>
    strain_fct_map md (excitation_type (meshes_px self)) = Some kern \<and>
    select_basis (meshes_px self) (axis (files_px_Mesh self) id_elem \<noteq> 0) =
      (G, GT, col_points_xi, col_points_eta) \<longrightarrow>
    (let mesh = meshes_px self;
         rotmesh_phi = fst (snd (rotmesh md source receiver));
         strain = strain_td kern
                    (load_displacement mesh (sem_mesh (files_px_Mesh self) id_elem))
                    G GT col_points_xi col_points_eta (npol mesh) (ndumps mesh) cp et
                    (axis (files_px_Mesh self) id_elem \<noteq> 0)
     in get_seismogram md self source receiver ''N'' =
          Inr (Some (contract
            (interpolate_strain md col_points_xi col_points_eta strain xi eta)
            (voigt_div
               (rotate_symm_tensor_voigt_xyz_to_src_1d md
                  (rotate_symm_tensor_voigt_xyz_earth_to_xyz_src_1d md
                     (rotate_symm_tensor_voigt_xyz_src_to_xyz_earth_1d md
                        (src_tensor_voigt source)
                        (deg2rad (src_longitude source)) (deg2rad (src_colatitude source)))
                     (deg2rad (rcv_longitude receiver)) (deg2rad (rcv_colatitude receiver)))
                  rotmesh_phi)
               (amplitude mesh))
            (azim_factor_bw md rotmesh_phi [0, 1, 0] 2 1)
            (azim_factor_bw md rotmesh_phi [0, 1, 0] 2 2)))))"
proof (intro conjI impI)
  show r: "rotate_moment md source receiver phi ampl =
     voigt_div
       (rotate_symm_tensor_voigt_xyz_to_src_1d md
          (rotate_symm_tensor_voigt_xyz_earth_to_xyz_src_1d md
             (rotate_symm_tensor_voigt_xyz_src_to_xyz_earth_1d md (src_tensor_voigt source)
                (deg2rad (src_longitude source)) (deg2rad (src_colatitude source)))
             (deg2rad (rcv_longitude receiver)) (deg2rad (rcv_colatitude receiver)))
          phi)
       ampl" for phi ampl
    by (simp add: rotate_moment_def)
  assume "locate md self source receiver = Inr (id_elem, cp, et, xi, eta) \<and>
    strip (dump_type (meshes_px self)) = ''displ_only'' \<and>
    strain_fct_map md (excitation_type (meshes_px self)) = Some kern \<and>
    select_basis (meshes_px self) (axis (files_px_Mesh self) id_elem \<noteq> 0) =
      (G, GT, col_points_xi, col_points_eta)"
  then have h: "locate md self source receiver = Inr (id_elem, cp, et, xi, eta)"
    "strip (dump_type (meshes_px self)) = ''displ_only''"
    "strain_fct_map md (excitation_type (meshes_px self)) = Some kern"
    "select_basis (meshes_px self) (axis (files_px_Mesh self) id_elem \<noteq> 0) =
      (G, GT, col_points_xi, col_points_eta)"
    by simp_all
  show "let mesh = meshes_px self;
         rotmesh_phi = fst (snd (rotmesh md source receiver));
         strain = strain_td kern
                    (load_displacement mesh (sem_mesh (files_px_Mesh self) id_elem))
                    G GT col_points_xi col_points_eta (npol mesh) (ndumps mesh) cp et
                    (axis (files_px_Mesh self) id_elem \<noteq> 0)
     in get_seismogram md self source receiver ''N'' =
          Inr (Some (contract
            (interpolate_strain md col_points_xi col_points_eta strain xi eta)
            (voigt_div
               (rotate_symm_tensor_voigt_xyz_to_src_1d md
                  (rotate_symm_tensor_voigt_xyz_earth_to_xyz_src_1d md
                     (rotate_symm_tensor_voigt_xyz_src_to_xyz_earth_1d md
                        (src_tensor_voigt source)
                        (deg2rad (src_longitude source)) (deg2rad (src_colatitude source)))
                     (deg2rad (rcv_longitude receiver)) (deg2rad (rcv_colatitude receiver)))
                  rotmesh_phi)
               (amplitude mesh))
            (azim_factor_bw md rotmesh_phi [0, 1, 0] 2 1)
            (azim_factor_bw md rotmesh_phi [0, 1, 0] 2 2)))"
    unfolding Let_def get_seismogram_N_supported[OF h] r ..
qed

theorem moment_rotated_then_normalised_witness:
  "rotate_moment ex_modules (ex_source 1 1) ex_receiver 0 2 =
     Voigt (2 * (2 + 1) / 2) (1 / 2) (3 / 2) (4 / 2) (5 / 2) (6 / 2) \<and>
   get_seismogram ex_modules (ex_db ''displ_only'') (ex_source 1 1) ex_receiver ''N'' =
     Inr (Some (contract
       (interpolate_strain ex_modules [- 1, 1] [- 1, 1]
          (strain_td (ex_kernel 1)
             (load_displacement (ex_Mesh ''displ_only'') (sem_mesh ex_mesh_group 6))
             [[1, 2], [3, 4]] [[5, 6], [7, 8]] [- 1, 1] [- 1, 1] 1 2
             [(0, 0), (10, 0), (10, 10), (0, 10)] 0 True) (- 4 / 5) (- 4 / 5))
       (Voigt (2 * (2 + 1) / 2) (1 / 2) (3 / 2) (4 / 2) (5 / 2) (6 / 2)) 1 3))"
proof -
  let ?db = "ex_db ''displ_only''"
  have h: "locate ex_modules ?db (ex_source 1 1) ex_receiver =
        Inr (6, [(0, 0), (10, 0), (10, 10), (0, 10)], 0, - 4 / 5, - 4 / 5) \<and>
    strip (dump_type (meshes_px ?db)) = ''displ_only'' \<and>
    strain_fct_map ex_modules (excitation_type (meshes_px ?db)) = Some (ex_kernel 1) \<and>
    select_basis (meshes_px ?db) (axis (files_px_Mesh ?db) 6 \<noteq> 0) =
      ([[1, 2], [3, 4]], [[5, 6], [7, 8]], [- 1, 1], [- 1, 1])"
    using ex_locate_1_1[of "''displ_only''"]
    by (simp add: ex_db_fields ex_strip select_basis_def)
  note t = moment_rotated_then_normalised[of ex_modules "ex_source 1 1" ex_receiver _ _ ?db
      6 "[(0, 0), (10, 0), (10, 10), (0, 10)]" 0 "- 4 / 5" "- 4 / 5" "ex_kernel 1"
      "[[1, 2], [3, 4]]" "[[5, 6], [7, 8]]" "[- 1, 1]" "[- 1, 1]"]
  have rots: "rotate_symm_tensor_voigt_xyz_to_src_1d ex_modules
          (rotate_symm_tensor_voigt_xyz_earth_to_xyz_src_1d ex_modules
             (rotate_symm_tensor_voigt_xyz_src_to_xyz_earth_1d ex_modules
                (src_tensor_voigt (ex_source 1 1)) a b) c d) phi =
        Voigt (2 * (2 + 1)) 1 3 4 5 6" for a b c d phi
    by (simp add: ex_modules_def ex_source_def)
  have m: "rotate_moment ex_modules (ex_source 1 1) ex_receiver 0 2 =
     Voigt (2 * (2 + 1) / 2) (1 / 2) (3 / 2) (4 / 2) (5 / 2) (6 / 2)"
    using t[of 0 2, THEN conjunct1] unfolding rots by (simp add: voigt_div_def)
  have g: "get_seismogram ex_modules ?db (ex_source 1 1) ex_receiver ''N'' =
     Inr (Some (contract
       (interpolate_strain ex_modules [- 1, 1] [- 1, 1]
          (strain_td (ex_kernel 1)
             (load_displacement (ex_Mesh ''displ_only'') (sem_mesh ex_mesh_group 6))
             [[1, 2], [3, 4]] [[5, 6], [7, 8]] [- 1, 1] [- 1, 1] 1 2
             [(0, 0), (10, 0), (10, 10), (0, 10)] 0 True) (- 4 / 5) (- 4 / 5))
       (Voigt (2 * (2 + 1) / 2) (1 / 2) (3 / 2) (4 / 2) (5 / 2) (6 / 2)) 1 3))"
    using t[of 0 2, THEN conjunct2] h unfolding rots
    by (simp add: Let_def ex_db_fields ex_azim voigt_div_def)
  from m g show ?thesis by simp
qed

text \<open>
  C6. For the located element, the axis flag selects what is passed to the strain kernel
  and to the interpolation: for an element on the axis the matrices \<open>G2\<close> and \<open>G1T\<close>,
  the GLJ points along xi and the GLL points along eta; otherwise the matrices \<open>G2\<close> and
  \<open>G2T\<close> and the GLL points along both directions.
\<close>

theorem basis_selected_by_axis:
  assumes "locate md self source receiver = Inr (id_elem, cp, et, xi, eta)"
    and "strip (dump_type (meshes_px self)) = ''displ_only''"
    and "strain_fct_map md (excitation_type (meshes_px self)) = Some kern"
  shows
    "(let mesh = meshes_px self;
          utemp = load_displacement mesh (sem_mesh (files_px_Mesh self) id_elem);
          phi = fst (snd (rotmesh md source receiver));
          mij = rotate_moment md source receiver phi (amplitude mesh);
          fac_1 = azim_factor_bw md phi [0, 1, 0] 2 1;
          fac_2 = azim_factor_bw md phi [0, 1, 0] 2 2
      in (axis (files_px_Mesh self) id_elem \<noteq> 0 \<longrightarrow>
            select_basis mesh True = (G2 mesh, G1T mesh, glj_points mesh, gll_points mesh) \<and>
            get_seismogram md self source receiver ''N'' =
              Inr (Some (contract
                (interpolate_strain md (glj_points mesh) (gll_points mesh)
                   (strain_td kern utemp (G2 mesh) (G1T mesh) (glj_points mesh) (gll_points mesh)
                      (npol mesh) (ndumps mesh) cp et True) xi eta)
                mij fac_1 fac_2))) \<and>
         (axis (files_px_Mesh self) id_elem = 0 \<longrightarrow>
            select_basis mesh False = (G2 mesh, G2T mesh, gll_points mesh, gll_points mesh) \<and>
            get_seismogram md self source receiver ''N'' =
              Inr (Some (contract
                (interpolate_strain md (gll_points mesh) (gll_points mesh)
                   (strain_td kern utemp (G2 mesh) (G2T mesh) (gll_points mesh) (gll_points mesh)
                      (npol mesh) (ndumps mesh) cp et False) xi eta)
                mij fac_1 fac_2))))"
proof -
  have ax: "select_basis (meshes_px self) (axis (files_px_Mesh self) id_elem \<noteq> 0) =
      (G2 (meshes_px self), G1T (meshes_px self), glj_points (meshes_px self),
       gll_points (meshes_px self))"
    if "axis (files_px_Mesh self) id_elem \<noteq> 0"
    using that by (simp add: select_basis_def)
  have nax: "select_basis (meshes_px self) (axis (files_px_Mesh self) id_elem \<noteq> 0) =
      (G2 (meshes_px self), G2T (meshes_px self), gll_points (meshes_px self),
       gll_points (meshes_px self))"
    if "axis (files_px_Mesh self) id_elem = 0"
    using that by (simp add: select_basis_def)
  show ?thesis
    unfolding Let_def
  proof (intro conjI impI)
    assume a: "axis (files_px_Mesh self) id_elem \<noteq> 0"
    show "select_basis (meshes_px self) True =
        (G2 (meshes_px self), G1T (meshes_px self), glj_points (meshes_px self),
         gll_points (meshes_px self))"
      by (simp add: select_basis_def)
    show "get_seismogram md self source receiver ''N'' =
        Inr (Some (contract
          (interpolate_strain md (glj_points (meshes_px self)) (gll_points (meshes_px self))
             (strain_td kern
                (load_displacement (meshes_px self) (sem_mesh (files_px_Mesh self) id_elem))
                (G2 (meshes_px self)) (G1T (meshes_px self)) (glj_points (meshes_px self))
                (gll_points (meshes_px self)) (npol (meshes_px self)) (ndumps (meshes_px self))
                cp et True) xi eta)
          (rotate_moment md source receiver (fst (snd (rotmesh md source receiver)))
             (amplitude (meshes_px self)))
          (azim_factor_bw md (fst (snd (rotmesh md source receiver))) [0, 1, 0] 2 1)
          (azim_factor_bw md (fst (snd (rotmesh md source receiver))) [0, 1, 0] 2 2)))"
      using get_seismogram_N_supported[OF assms ax[OF a]] a by simp
  next
    assume a: "axis (files_px_Mesh self) id_elem = 0"
    show "select_basis (meshes_px self) False =
        (G2 (meshes_px self), G2T (meshes_px self), gll_points (meshes_px self),
         gll_points (meshes_px self))"
      by (simp add: select_basis_def)
    show "get_seismogram md self source receiver ''N'' =
        Inr (Some (contract
          (interpolate_strain md (gll_points (meshes_px self)) (gll_points (meshes_px self))
             (strain_td kern
                (load_displacement (meshes_px self) (sem_mesh (files_px_Mesh self) id_elem))
                (G2 (meshes_px self)) (G2T (meshes_px self)) (gll_points (meshes_px self))
                (gll_points (meshes_px self)) (npol (meshes_px self)) (ndumps (meshes_px self))
                cp et False) xi eta)
          (rotate_moment md source receiver (fst (snd (rotmesh md source receiver)))
             (amplitude (meshes_px self)))
          (azim_factor_bw md (fst (snd (rotmesh md source receiver))) [0, 1, 0] 2 1)
          (azim_factor_bw md (fst (snd (rotmesh md source receiver))) [0, 1, 0] 2 2)))"
      using get_seismogram_N_supported[OF assms nax[OF a]] a by simp
  qed
qed

theorem basis_selected_by_axis_witness:
  "axis (files_px_Mesh (ex_db ''displ_only'')) 6 \<noteq> 0 \<and>
   get_seismogram ex_modules (ex_db ''displ_only'') (ex_source 1 1) ex_receiver ''N'' =
     Inr (Some (contract
       (interpolate_strain ex_modules [- 1, 1] [- 1, 1]
          (strain_td (ex_kernel 1)
             (load_displacement (ex_Mesh ''displ_only'') (sem_mesh ex_mesh_group 6))
             [[1, 2], [3, 4]] [[5, 6], [7, 8]] [- 1, 1] [- 1, 1] 1 2
             [(0, 0), (10, 0), (10, 10), (0, 10)] 0 True) (- 4 / 5) (- 4 / 5))
       (Voigt 3 (1 / 2) (3 / 2) 2 (5 / 2) 3) 1 3)) \<and>
   axis (files_px_Mesh (ex_db ''displ_only'')) 0 = 0 \<and>
   get_seismogram ex_modules (ex_db ''displ_only'') (ex_source (109 / 10) (21 / 2)) ex_receiver
       ''N'' =
     Inr (Some (contract
       (interpolate_strain ex_modules [- 1, 1] [- 1, 1]
          (strain_td (ex_kernel 1)
             (load_displacement (ex_Mesh ''displ_only'') (sem_mesh ex_mesh_group 0))
             [[1, 2], [3, 4]] [[1, 3], [2, 4]] [- 1, 1] [- 1, 1] 1 2
             [(10, 10), (11, 10), (11, 11), (10, 11)] 0 False) (4 / 5) 0)
       (Voigt 3 (1 / 2) (3 / 2) 2 (5 / 2) 3) 1 3))"
proof -
  let ?db = "ex_db ''displ_only''"
  have st: "strip (dump_type (meshes_px ?db)) = ''displ_only''"
    by (simp add: ex_db_fields ex_strip)
  note on_axis = basis_selected_by_axis[OF ex_locate_1_1 st ex_db_fields(2)]
  note off_axis = basis_selected_by_axis[OF ex_locate_109_105 st ex_db_fields(2)]
  show ?thesis
    using on_axis off_axis
    by (simp add: Let_def ex_db_fields ex_rotate_moment ex_azim)
qed

text \<open>
  C7. A displacement variable that is absent from the field store is skipped and raises
  nothing: the entries of its component of the buffer stay zero, the entries of a
  component whose variable is present are the values read at the raw node id
  \<^verbatim>\<open>gll_point_ids[ipol, jpol]\<close>, the buffer has its full shape, and the query returns a
  trace of \<open>ndumps\<close> samples whichever of the three variables the store holds.
\<close>

theorem absent_variable_is_zero:
  "((c, var) \<in> set disp_vars \<and> t < ndumps mesh \<and> jpol \<le> npol mesh \<and> ipol \<le> npol mesh \<longrightarrow>
      load_displacement mesh ids ! t ! jpol ! ipol ! c =
        (case snapshots mesh var of None \<Rightarrow> 0 | Some v \<Rightarrow> v t (ids ipol jpol))) \<and>
   shaped (ndumps mesh) (npol mesh) (load_displacement mesh ids) \<and>
   (locate md self source receiver = Inr (id_elem, cp, et, xi, eta) \<and>
    strip (dump_type (meshes_px self)) = ''displ_only'' \<and>
    strain_fct_map md (excitation_type (meshes_px self)) = Some kern \<longrightarrow>
      (\<exists>final. get_seismogram md self source receiver ''N'' = Inr (Some final) \<and>
         length final = ndumps (meshes_px self)))"
proof (intro conjI impI)
  assume h: "(c, var) \<in> set disp_vars \<and> t < ndumps mesh \<and> jpol \<le> npol mesh \<and> ipol \<le> npol mesh"
  then have c: "stored (snapshots mesh) disp_vars c = snapshots mesh var" "c < 3"
    using stored_disp_vars[of c var] by simp_all
  show "load_displacement mesh ids ! t ! jpol ! ipol ! c =
        (case snapshots mesh var of None \<Rightarrow> 0 | Some v \<Rightarrow> v t (ids ipol jpol))"
    using load_displacement_entry[of t mesh jpol ipol c ids] h c by simp
next
  show "shaped (ndumps mesh) (npol mesh) (load_displacement mesh ids)"
    by (rule shaped_load_displacement)
next
  assume h: "locate md self source receiver = Inr (id_elem, cp, et, xi, eta) \<and>
    strip (dump_type (meshes_px self)) = ''displ_only'' \<and>
    strain_fct_map md (excitation_type (meshes_px self)) = Some kern"
  obtain G GT cxi ceta where
    sb: "select_basis (meshes_px self) (axis (files_px_Mesh self) id_elem \<noteq> 0) = (G, GT, cxi, ceta)"
    by (cases "select_basis (meshes_px self) (axis (files_px_Mesh self) id_elem \<noteq> 0)")
  from h have "locate md self source receiver = Inr (id_elem, cp, et, xi, eta)"
    "strip (dump_type (meshes_px self)) = ''displ_only''"
    "strain_fct_map md (excitation_type (meshes_px self)) = Some kern"
    by simp_all
  from get_seismogram_N_supported[OF this sb]
  show "\<exists>final. get_seismogram md self source receiver ''N'' = Inr (Some final) \<and>
         length final = ndumps (meshes_px self)"
    by (simp add: length_contract_interpolate length_strain_td length_load_displacement)
qed

theorem absent_variable_is_zero_witness:
  "snapshots (ex_Mesh ''displ_only'') ''disp_p'' = None \<and>
   load_displacement (ex_Mesh ''displ_only'') (sem_mesh ex_mesh_group 6) ! 1 ! 0 ! 1 ! 1 = 0 \<and>
   load_displacement (ex_Mesh ''displ_only'') (sem_mesh ex_mesh_group 6) ! 1 ! 0 ! 1 ! 0 = 27 \<and>
   (\<exists>final. get_seismogram ex_modules (ex_db ''displ_only'') (ex_source 1 1) ex_receiver ''N'' =
        Inr (Some final) \<and> length final = 2)"
proof -
  let ?db = "ex_db ''displ_only''"
  let ?mesh = "ex_Mesh ''displ_only''"
  let ?ids = "sem_mesh ex_mesh_group 6"
  have st: "strip (dump_type (meshes_px ?db)) = ''displ_only''"
    by (simp add: ex_db_fields ex_strip)
  have absent: "snapshots ?mesh ''disp_p'' = None"
    and present: "snapshots ?mesh ''disp_s'' = Some (\<lambda>t n. real t + real_of_int n)"
    by (simp_all add: ex_Mesh_def)
  have rng: "(1, ''disp_p'') \<in> set disp_vars \<and> 1 < ndumps ?mesh \<and> 0 \<le> npol ?mesh \<and> 1 \<le> npol ?mesh"
    "(0, ''disp_s'') \<in> set disp_vars \<and> 1 < ndumps ?mesh \<and> 0 \<le> npol ?mesh \<and> 1 \<le> npol ?mesh"
    by (simp_all add: disp_vars_eq ex_Mesh_def)
  have z: "load_displacement ?mesh ?ids ! 1 ! 0 ! 1 ! 1 = 0"
    using absent_variable_is_zero[of 1 "''disp_p''" 1 ?mesh 0 1 ?ids] rng(1) absent
    by simp
  have v: "load_displacement ?mesh ?ids ! 1 ! 0 ! 1 ! 0 = 27"
    using absent_variable_is_zero[of 0 "''disp_s''" 1 ?mesh 0 1 ?ids] rng(2) present
    by (simp add: ex_mesh_group_def)
  have r: "\<exists>final. get_seismogram ex_modules ?db (ex_source 1 1) ex_receiver ''N'' =
        Inr (Some final) \<and> length final = 2"
    using absent_variable_is_zero[of 0 "''disp_s''" 1 ?mesh 0 1 ?ids ex_modules ?db "ex_source 1 1"
        ex_receiver 6 "[(0, 0), (10, 0), (10, 10), (0, 10)]" 0 "- 4 / 5" "- 4 / 5" "ex_kernel 1"]
      ex_locate_1_1[of "''displ_only''"] st ex_db_fields(2)[of "''displ_only''"]
    by (simp add: ex_db_fields)
  show ?thesis
    using absent z v r by simp
qed

text \<open>
  C8. Claimed: \<^verbatim>\<open>get_info\<close> is called at most once per object, on the first read of
  \<^verbatim>\<open>info\<close>. The property tests \<^verbatim>\<open>hasattr(self, "__cached_info")\<close> with the name as a
  string, and stores the value through \<^verbatim>\<open>self.__cached_info\<close>, which inside the class body
  is the attribute \<^verbatim>\<open>_BaseInstaseisDB__cached_info\<close>. The test never succeeds, so every
  read calls \<^verbatim>\<open>get_info\<close> again (lemma \<open>info_reads_calls\<close>: \<open>n\<close> reads, \<open>n\<close> calls). Here
  a fresh object is read twice.
\<close>

theorem info_recomputed_on_second_read:
  "get_info_calls
     (snd (info g (snd (info g \<lparr>attrs = Map.empty, get_info_calls = 0\<rparr>)))) = 2"
proof -
  let ?fresh = "\<lparr>attrs = Map.empty, get_info_calls = 0\<rparr> :: 'a db_object"
  have f: "\<not> hasattr ?fresh ''__cached_info''"
    by (simp add: hasattr_def)
  have "get_info_calls (snd (info g (snd (info g ?fresh)))) =
      get_info_calls (snd (info g ?fresh)) + 1"
    by (rule info_uncached(1)[OF info_uncached(2)[OF f]])
  also have "\<dots> = get_info_calls ?fresh + 1 + 1"
    by (simp only: info_uncached(1)[OF f])
  finally show ?thesis by simp
qed

text \<open>
  C9. The first assignment of \<^verbatim>\<open>start_chunk\<close> is dead: the index with which the field
  store is read is the raw node id \<^verbatim>\<open>gll_point_ids[ipol, jpol]\<close>, and the program without
  lines 105--106 loads the same buffer and gives the same result for every input.
\<close>

theorem start_chunk_is_raw_id:
  "start_chunk_of gll_point_ids chnks ipol jpol = gll_point_ids ipol jpol \<and>
   load_displacement mesh gll_point_ids = load_displacement_raw mesh gll_point_ids \<and>
   get_seismogram md self source receiver component =
     get_seismogram_raw md self source receiver component"
proof -
  have l: "load_displacement m ids = load_displacement_raw m ids" for m ids
    by (simp add: load_displacement_def load_displacement_raw_def start_chunk_of_raw)
  have n: "seismogram_N md m source receiver phi ids ax cp et xi eta =
      seismogram_N_raw md m source receiver phi ids ax cp et xi eta" for m phi ids ax cp et xi eta
    by (simp add: seismogram_N_def seismogram_N_raw_def l)
  have "get_seismogram md self source receiver component =
     get_seismogram_raw md self source receiver component"
    unfolding get_seismogram_def get_seismogram_raw_def n ..
  with l show ?thesis by (simp add: start_chunk_of_raw)
qed

text \<open>
  C10. The spatial index is asked for \<open>k = 6\<close> candidates, the 6 being written in the
  call; \<^verbatim>\<open>get_seismogram\<close> has no parameter for it. With the nearest-neighbour index over
  \<open>pts\<close> reference vertices these are \<open>min 6 (length pts)\<close> elements. A point that an
  element \<open>e\<close> outside the candidates contains, and none of the candidates does, is
  answered with \<^verbatim>\<open>ValueError("Element not found")\<close>.
\<close>

theorem only_six_candidates:
  "candidates md self source receiver =
     snd (kdtree (meshes_px self)
            [fst (rotmesh md source receiver), snd (snd (rotmesh md source receiver))] 6) \<and>
   (kdtree (meshes_px self) = knn_query pts \<longrightarrow>
      length (candidates md self source receiver) = min 6 (length pts)) \<and>
   (fst (inside_result md self source receiver e) \<and>
    e \<notin> set (candidates md self source receiver) \<and>
    (\<forall>i\<in>set (candidates md self source receiver).
       \<not> fst (inside_result md self source receiver i)) \<longrightarrow>
    (\<forall>component.
       get_seismogram md self source receiver component =
         Inl (ValueError ''Element not found'')))"
proof (intro conjI allI impI)
  show c: "candidates md self source receiver =
     snd (kdtree (meshes_px self)
            [fst (rotmesh md source receiver), snd (snd (rotmesh md source receiver))] 6)"
    by (simp add: candidates_def split: prod.splits)
  show "length (candidates md self source receiver) = min 6 (length pts)"
    if "kdtree (meshes_px self) = knn_query pts"
    unfolding c that by (simp add: knn_query_def Let_def min.commute)
next
  fix component
  assume "fst (inside_result md self source receiver e) \<and>
    e \<notin> set (candidates md self source receiver) \<and>
    (\<forall>i\<in>set (candidates md self source receiver).
       \<not> fst (inside_result md self source receiver i))"
  then have "locate md self source receiver = Inl (ValueError ''Element not found'')"
    by (simp add: locate_none)
  then show "get_seismogram md self source receiver component =
         Inl (ValueError ''Element not found'')"
    by (rule get_seismogram_not_located)
qed

theorem only_six_candidates_witness:
  "fst (inside_result ex_modules (ex_db ''displ_only'') (ex_source 9 9) ex_receiver 6) \<and>
   candidates ex_modules (ex_db ''displ_only'') (ex_source 9 9) ex_receiver = [0, 1, 2, 3, 4, 5] \<and>
   length (candidates ex_modules (ex_db ''displ_only'') (ex_source 9 9) ex_receiver) = min 6 7 \<and>
   get_seismogram ex_modules (ex_db ''displ_only'') (ex_source 9 9) ex_receiver ''N'' =
     Inl (ValueError ''Element not found'')"
proof -
  let ?db = "ex_db ''displ_only''"
  let ?src = "ex_source 9 9"
  note t = only_six_candidates[of ex_modules ?db ?src ex_receiver
      "map (\<lambda>e. ex_node (4 * e)) [0..<7]" 6]
  have k: "kdtree (meshes_px ?db) = knn_query (map (\<lambda>e. ex_node (4 * e)) [0..<7])"
    by (simp add: ex_db_def ex_Mesh_def)
  from t have "kdtree (meshes_px ?db) = knn_query (map (\<lambda>e. ex_node (4 * e)) [0..<7]) \<longrightarrow>
      length (candidates ex_modules ?db ?src ex_receiver) =
        min 6 (length (map (\<lambda>e. ex_node (4 * e)) [0..<7]))"
    by blast
  with k have len: "length (candidates ex_modules ?db ?src ex_receiver) = min 6 7"
    by simp
  have h: "fst (inside_result ex_modules ?db ?src ex_receiver 6) \<and>
    6 \<notin> set (candidates ex_modules ?db ?src ex_receiver) \<and>
    (\<forall>i\<in>set (candidates ex_modules ?db ?src ex_receiver).
       \<not> fst (inside_result ex_modules ?db ?src ex_receiver i))"
    using ex_not_inside_9_9[of "''displ_only''"]
    by (simp add: ex_inside_9_9 ex_candidates_9_9)
  have c: "get_seismogram ex_modules ?db ?src ex_receiver ''N'' =
      Inl (ValueError ''Element not found'')"
    using t h by blast
  show ?thesis
    using h len c by (simp add: ex_candidates_9_9)
qed

end
